theory Spec2Isabelle
  imports Complex_Main
begin

section \<open>Numbers, errors and the helpers of \<^verbatim>\<open>mathutils.py\<close>\<close>

text \<open>
  The library computes with Python floats. They are modelled by the real numbers: every
  arithmetic operation and every function of the \<^verbatim>\<open>math\<close> module is the exact one, so
  overflow, infinities and NaN are outside the model, and so is rounding, except where it is
  written out (the sum in \<^verbatim>\<open>to_range\<close>, below). The exceptions that Python raises on
  finite values are kept as results: a float division by zero raises
  \<^verbatim>\<open>ZeroDivisionError\<close>, \<^verbatim>\<open>math.sqrt\<close> of a negative number raises
  \<^verbatim>\<open>ValueError\<close> (math domain error), and a call made when the stack of the interpreter
  has reached its recursion limit raises \<^verbatim>\<open>RecursionError\<close>.
\<close>

datatype error = ZeroDivisionError | ValueError | RecursionError

text \<open>
  \<^verbatim>\<open>math.fmod(x, r)\<close> is \<open>x - r * n\<close> for the integer \<open>n\<close> that is \<open>x / r\<close>
  rounded towards zero, and \<^verbatim>\<open>math.modf(x)[0]\<close> is the fractional part with the sign of
  \<open>x\<close>. The library calls \<^verbatim>\<open>fmod\<close> with the moduli 360 and \<open>2 * pi\<close> only.
\<close>

definition trunc :: "real \<Rightarrow> int" where
  "trunc x = (if 0 \<le> x then \<lfloor>x\<rfloor> else \<lceil>x\<rceil>)"

definition fmod :: "real \<Rightarrow> real \<Rightarrow> real" where
  "fmod x r = x - r * of_int (trunc (x / r))"

definition radians :: "real \<Rightarrow> real" where
  "radians x = x * (pi / 180)"

definition degrees :: "real \<Rightarrow> real" where
  "degrees x = x * (180 / pi)"

text \<open>
  \<^verbatim>\<open>math.atan2(y, x)\<close>: the angle of the point \<open>(x, y)\<close>, in \<open>(- pi, pi]\<close>, and
  0 at the origin.
\<close>

definition atan2 :: "real \<Rightarrow> real \<Rightarrow> real" where
  "atan2 y x =
     (if 0 < x then arctan (y / x)
      else if x < 0 \<and> 0 \<le> y then arctan (y / x) + pi
      else if x < 0 then arctan (y / x) - pi
      else if 0 < y then pi / 2
      else if y < 0 then - (pi / 2)
      else 0)"

definition PI2 :: real where
  "PI2 = pi * 2"

text \<open>
  \<^verbatim>\<open>polynome(t, a, *args)\<close> folds the coefficients from the last one backwards:
  \<^verbatim>\<open>reduce(lambda a, b: tmul(a) + b, reversed(coeffs))\<close> with \<^verbatim>\<open>tmul = partial(mul, t)\<close>.
\<close>

definition polynome :: "real \<Rightarrow> real \<Rightarrow> real list \<Rightarrow> real" where
  "polynome t a args =
     (let coeffs = a # args
      in foldl (\<lambda>a b. t * a + b) (hd (rev coeffs)) (tl (rev coeffs)))"

definition to_range :: "real \<Rightarrow> real \<Rightarrow> real" where
  "to_range x r = (let a = fmod x r in if a < 0 then a + r else a)"

definition reduce_deg :: "real \<Rightarrow> real" where
  "reduce_deg x = to_range x 360"

definition reduce_rad :: "real \<Rightarrow> real" where
  "reduce_rad x = to_range x PI2"

text \<open>
  The same reduction as it runs on doubles. For doubles \<open>x\<close> and \<open>r\<close> the result of
  \<^verbatim>\<open>fmod\<close> is a double and is exact, and the comparison is exact; the sum \<open>a + r\<close> is
  the one operation of \<^verbatim>\<open>to_range\<close> that rounds. A double has 53 significant bits: a
  real number \<open>x\<close> with \<open>2 ^ e \<le> \<bar>x\<bar> < 2 ^ (e + 1)\<close> is rounded to the nearest multiple
  of \<open>2 ^ (e - 52)\<close>, and a tie goes to the even multiple. The range of the exponent
  (overflow, subnormal numbers) is not modelled.
\<close>

definition round_half_even :: "real \<Rightarrow> int" where
  "round_half_even x =
     (let n = \<lfloor>x\<rfloor>; d = x - of_int n
      in if d < 1/2 then n else if 1/2 < d then n + 1 else if even n then n else n + 1)"

definition binary64 :: "real \<Rightarrow> real" where
  "binary64 x =
     (if x = 0 then 0
      else (let u = 2 powr (of_int \<lfloor>log 2 \<bar>x\<bar>\<rfloor> - 52)
            in of_int (round_half_even (x / u)) * u))"

definition to_range_binary64 :: "real \<Rightarrow> real \<Rightarrow> real" where
  "to_range_binary64 x r = (let a = fmod x r in if a < 0 then binary64 (a + r) else a)"

definition reduce_deg_binary64 :: "real \<Rightarrow> real" where
  "reduce_deg_binary64 x = to_range_binary64 x 360"

definition frac :: "real \<Rightarrow> real" where
  "frac x = x - of_int (trunc x)"

definition frac360 :: "real \<Rightarrow> real" where
  "frac360 x = frac x * 360"

text \<open>\<^verbatim>\<open>Polar = namedtuple("Polar", "phi rho")\<close>: the two components in this order.\<close>

datatype Polar = Polar real real

text \<open>\<^verbatim>\<open>Nutation = namedtuple("Nutation", "dpsi deps")\<close> of \<^verbatim>\<open>nutation.py\<close>.\<close>

datatype Nutation = Nutation (dpsi: real) (deps: real)

definition DAYS_PER_CENT :: real where
  "DAYS_PER_CENT = 36525"


section \<open>The Kepler equation (\<^verbatim>\<open>kepler.py\<close>)\<close>

definition DELTA :: real where
  "DELTA = 0.0000001"

text \<open>
  \<^verbatim>\<open>eccentric_anomaly(s, m, _ea=None)\<close> calls itself until the residual \<open>dla\<close> is below
  \<open>DELTA\<close>: every Newton step is one more call on the stack. Nothing in the function
  limits the number of calls. The first model is the function on a stack without limit, a
  partial function: \<open>None\<close> means that the recursion never returns, \<open>Some (Inl e)\<close> that
  the exception \<open>e\<close> is raised, \<open>Some (Inr ea)\<close> that \<open>ea\<close> is returned. The planet
  methods below call it.
\<close>

partial_function (option) eccentric_anomaly ::
    "real \<Rightarrow> real \<Rightarrow> real option \<Rightarrow> (error + real) option" where
  "eccentric_anomaly s m ea_opt =
     (let ea = (case ea_opt of None \<Rightarrow> m | Some e \<Rightarrow> e);
          dla = ea - (s * sin ea) - m
      in if \<bar>dla\<bar> < DELTA then Some (Inr ea)
         else if 1 - (s * cos ea) = 0 then Some (Inl ZeroDivisionError)
         else eccentric_anomaly s m (Some (ea - dla / (1 - (s * cos ea)))))"

text \<open>
  The second model is the same function as the interpreter runs it. The interpreter allows
  a limited number of nested calls (\<^verbatim>\<open>sys.getrecursionlimit()\<close>, 1000 unless it is
  changed, counted over the whole stack) and raises \<^verbatim>\<open>RecursionError\<close> at the call that
  would exceed it. The first argument is the number of calls that the stack still has room
  for when \<^verbatim>\<open>eccentric_anomaly\<close> is called.
\<close>

fun eccentric_anomaly_depth :: "nat \<Rightarrow> real \<Rightarrow> real \<Rightarrow> real option \<Rightarrow> error + real" where
  "eccentric_anomaly_depth 0 s m ea_opt = Inl RecursionError"
| "eccentric_anomaly_depth (Suc n) s m ea_opt =
     (let ea = (case ea_opt of None \<Rightarrow> m | Some e \<Rightarrow> e);
          dla = ea - (s * sin ea) - m
      in if \<bar>dla\<bar> < DELTA then Inr ea
         else if 1 - (s * cos ea) = 0 then Inl ZeroDivisionError
         else eccentric_anomaly_depth n s m (Some (ea - dla / (1 - (s * cos ea)))))"

text \<open>
  \<^verbatim>\<open>true_anomaly(s, ea)\<close> is \<^verbatim>\<open>2 * atan(sqrt((1 + s) / (1 - s)) * tan(ea / 2))\<close>. The
  quotient is evaluated first and raises \<^verbatim>\<open>ZeroDivisionError\<close> when \<open>1 - s\<close> is zero;
  then \<^verbatim>\<open>sqrt\<close> raises \<^verbatim>\<open>ValueError\<close> on a negative quotient.
\<close>

definition true_anomaly :: "real \<Rightarrow> real \<Rightarrow> error + real" where
  "true_anomaly s ea =
     (if 1 - s = 0 then Inl ZeroDivisionError
      else if (1 + s) / (1 - s) < 0 then Inl ValueError
      else Inr (2 * arctan (sqrt ((1 + s) / (1 - s)) * tan (ea / 2))))"


section \<open>Planet identifiers and perturbation records (\<^verbatim>\<open>ids.py\<close>, \<^verbatim>\<open>pert.py\<close>)\<close>

datatype PlanetId = MERCURY | VENUS | MARS | JUPITER | SATURN | URANUS | NEPTUNE | PLUTO

text \<open>
  \<^verbatim>\<open>PertRecord\<close> is a dataclass of seven floats that all default to 0. The fields are, in
  this order: \<open>dl\<close> (longitude), \<open>dr\<close> (radius vector), \<open>dml\<close> (mean longitude),
  \<open>ds\<close> (eccentricity), \<open>dm\<close> (mean anomaly), \<open>da\<close> (semi-major axis) and \<open>dhl\<close>
  (heliocentric latitude).
\<close>

datatype PertRecord = PertRecord real real real real real real real

text \<open>
  A perturbation calculator is an object of the class \<^verbatim>\<open>PertCalculator\<close>, which is
  constructed with a planet identifier, or of one of its eight subclasses, which have no
  data of their own. The value below is the class of the object.
\<close>

datatype PertCalculator =
    PertCalculator PlanetId
  | PertMercury | PertVenus | PertMars | PertJupiter
  | PertSaturn | PertUranus | PertNeptune | PertPluto


section \<open>Osculating elements (\<^verbatim>\<open>orbit.py\<close>)\<close>

text \<open>
  \<^verbatim>\<open>Terms(*args)\<close> holds the coefficients of a polynomial. \<^verbatim>\<open>assemble\<close> hands them to
  \<^verbatim>\<open>polynome(t, a, *args)\<close>, whose first coefficient is required: the value is the first
  coefficient and the list of the others. \<^verbatim>\<open>MLTerms(a, b=0, c=0, d=0)\<close> always holds
  four coefficients.
\<close>

datatype Terms = Terms real "real list"

datatype MLTerms = MLTerms real real real real

fun Terms_assemble :: "Terms \<Rightarrow> real \<Rightarrow> real" where
  "Terms_assemble (Terms a args) t = reduce_deg (polynome t a args)"

fun MLTerms_assemble :: "MLTerms \<Rightarrow> real \<Rightarrow> real" where
  "MLTerms_assemble (MLTerms a b c d) t =
     (let b' = frac360 (b * t)
      in reduce_deg (a + b' + (d * t + c) * t * t))"

record OElements =
  mean_longitude :: MLTerms
  perihelion :: Terms
  eccentricity :: Terms
  inclination :: Terms
  mean_node :: Terms
  major_semiaxis :: real

text \<open>
  The attribute \<^verbatim>\<open>_dm\<close> is computed by the constructor from the mean longitude terms and
  is never assigned again; \<^verbatim>\<open>daily_motion\<close> returns it.
\<close>

fun MLTerms_daily_motion :: "MLTerms \<Rightarrow> real" where
  "MLTerms_daily_motion (MLTerms a b c d) = b * 0.009856263 + (c + d) / DAYS_PER_CENT"

definition OElements_daily_motion :: "OElements \<Rightarrow> real" where
  "OElements_daily_motion oe = MLTerms_daily_motion (OElements.mean_longitude oe)"

record OrbitInstance =
  perihelion :: real
  eccentricity :: real
  mean_node :: real
  inclination :: real
  major_semiaxis :: real
  mean_anomaly :: real
  daily_motion :: real

definition assemble_mean_anomaly :: "OElements \<Rightarrow> real \<Rightarrow> real" where
  "assemble_mean_anomaly oe t =
     reduce_deg (MLTerms_assemble (OElements.mean_longitude oe) t
                 - Terms_assemble (OElements.perihelion oe) t)"

definition instantiate :: "OElements \<Rightarrow> real \<Rightarrow> OrbitInstance" where
  "instantiate oe t =
     (let ph = Terms_assemble (OElements.perihelion oe) t
      in \<lparr> OrbitInstance.perihelion = radians ph,
           OrbitInstance.eccentricity = Terms_assemble (OElements.eccentricity oe) t,
           OrbitInstance.mean_node = radians (Terms_assemble (OElements.mean_node oe) t),
           OrbitInstance.inclination = radians (Terms_assemble (OElements.inclination oe) t),
           OrbitInstance.major_semiaxis = OElements.major_semiaxis oe,
           OrbitInstance.mean_anomaly = radians (assemble_mean_anomaly oe t),
           OrbitInstance.daily_motion = radians (OElements_daily_motion oe) \<rparr>)"


section \<open>The planets (\<^verbatim>\<open>planet.py\<close>): data\<close>

text \<open>
  \<^verbatim>\<open>HelioRecord = namedtuple("HelioRecord", "ll rpd lpd spsi cpsi rho")\<close>: the six
  components in this order; the last one, \<open>rho\<close>, is the distance from the Earth.
\<close>

datatype HelioRecord = HelioRecord real real real real real real

record EclipticPosition =
  lmbda :: real
  beta :: real
  delta :: real

text \<open>A \<^verbatim>\<open>Planet\<close> object; the field \<open>planet_id\<close> is the attribute \<^verbatim>\<open>id\<close>.\<close>

record Planet =
  planet_id :: PlanetId
  name :: string
  is_inner :: bool
  orbit :: OElements
  pert_calculator :: PertCalculator

text \<open>The factory \<^verbatim>\<open>Planet.for_id\<close>: one planet for each identifier.\<close>

fun for_id :: "PlanetId \<Rightarrow> Planet" where
   "for_id MERCURY =
     \<lparr> planet_id = MERCURY, name = ''Mercury'', is_inner = True,
       orbit = \<lparr>
         OElements.mean_longitude = MLTerms 178.179078 415.2057519 0.0003011 0,
         OElements.perihelion = Terms 75.899697 [1.5554889, 0.0002947],
         OElements.eccentricity = Terms 0.20561421 [0.00002046, (-0.00000003)],
         OElements.inclination = Terms 7.002881 [0.0018608, (-0.0000183)],
         OElements.mean_node = Terms 47.145944 [1.1852083, 0.0001739],
         OElements.major_semiaxis = 0.3870986 \<rparr>,
       pert_calculator = PertMercury \<rparr>"
| "for_id VENUS =
     \<lparr> planet_id = VENUS, name = ''Venus'', is_inner = True,
       orbit = \<lparr>
         OElements.mean_longitude = MLTerms 342.767053 162.5533664 0.0003097 0,
         OElements.perihelion = Terms 130.163833 [1.4080361, (-0.0009764)],
         OElements.eccentricity = Terms 0.00682069 [(-0.00004774), 0.000000091],
         OElements.inclination = Terms 3.393631 [0.0010058, (-0.000001)],
         OElements.mean_node = Terms 75.779647 [0.89985, 0.00041],
         OElements.major_semiaxis = 0.7233316 \<rparr>,
       pert_calculator = PertVenus \<rparr>"
| "for_id MARS =
     \<lparr> planet_id = MARS, name = ''Mars'', is_inner = False,
       orbit = \<lparr>
         OElements.mean_longitude = MLTerms 293.737334 53.17137642 0.0003107 0,
         OElements.perihelion = Terms 334.218203 [1.8407584, 0.0001299, (-0.00000119)],
         OElements.eccentricity = Terms 0.0933129 [0.000092064, (-0.000000077)],
         OElements.inclination = Terms 1.850333 [(-0.000675), 0.0000126],
         OElements.mean_node = Terms 48.786442 [0.7709917, (-0.0000014), (-0.00000533)],
         OElements.major_semiaxis = 1.5236883 \<rparr>,
       pert_calculator = PertMars \<rparr>"
| "for_id JUPITER =
     \<lparr> planet_id = JUPITER, name = ''Jupiter'', is_inner = False,
       orbit = \<lparr>
         OElements.mean_longitude = MLTerms 238.049257 8.434172183 0.0003347 (-0.00000165),
         OElements.perihelion = Terms 12.720972 [1.6099617, 0.00105627, (-0.00000343)],
         OElements.eccentricity = Terms 0.04833475 [0.00016418, (-0.0000004676), (-0.0000000017)],
         OElements.inclination = Terms 1.308736 [(-0.0056961), 0.0000039],
         OElements.mean_node = Terms 99.443414 [1.01053, 0.00035222, (-0.00000851)],
         OElements.major_semiaxis = 5.202561 \<rparr>,
       pert_calculator = PertJupiter \<rparr>"
| "for_id SATURN =
     \<lparr> planet_id = SATURN, name = ''Saturn'', is_inner = False,
       orbit = \<lparr>
         OElements.mean_longitude = MLTerms 266.564377 3.398638567 0.0003245 (-0.0000058),
         OElements.perihelion = Terms 91.098214 [1.9584158, 0.00082636, 0.00000461],
         OElements.eccentricity = Terms 0.05589232 [(-0.0003455), (-0.000000728), 0.00000000074],
         OElements.inclination = Terms 2.492519 [(-0.0039189), (-0.00001549), 0.00000004],
         OElements.mean_node = Terms 112.790414 [0.8731951, (-0.00015218), (-0.00000531)],
         OElements.major_semiaxis = 9.554747 \<rparr>,
       pert_calculator = PertSaturn \<rparr>"
| "for_id URANUS =
     \<lparr> planet_id = URANUS, name = ''Uranus'', is_inner = False,
       orbit = \<lparr>
         OElements.mean_longitude = MLTerms 244.19747 1.194065406 0.000316 (-0.0000006),
         OElements.perihelion = Terms 171.548692 [1.4844328, 0.0002372, (-0.00000061)],
         OElements.eccentricity = Terms 0.0463444 [(-0.00002658), 0.000000077],
         OElements.inclination = Terms 0.772464 [0.0006253, 0.0000395],
         OElements.mean_node = Terms 73.477111 [0.4986678, 0.0013117],
         OElements.major_semiaxis = 19.21814 \<rparr>,
       pert_calculator = PertUranus \<rparr>"
| "for_id NEPTUNE =
     \<lparr> planet_id = NEPTUNE, name = ''Neptune'', is_inner = False,
       orbit = \<lparr>
         OElements.mean_longitude = MLTerms 84.457994 0.6107942056 0.0003205 (-0.0000006),
         OElements.perihelion = Terms 46.727364 [1.4245744, 0.00039082, (-0.000000605)],
         OElements.eccentricity = Terms 0.00899704 [0.00000633, (-0.000000002)],
         OElements.inclination = Terms 1.779242 [(-0.0095436), (-0.0000091)],
         OElements.mean_node = Terms 130.681389 [1.098935, 0.00024987, (-0.000004718)],
         OElements.major_semiaxis = 30.10957 \<rparr>,
       pert_calculator = PertNeptune \<rparr>"
| "for_id PLUTO =
     \<lparr> planet_id = PLUTO, name = ''Pluto'', is_inner = False,
       orbit = \<lparr>
         OElements.mean_longitude = MLTerms 95.3113544 0.3980332167 0 0,
         OElements.perihelion = Terms 224.017 [],
         OElements.eccentricity = Terms 0.25515 [],
         OElements.inclination = Terms 17.1329 [],
         OElements.mean_node = Terms 110.191 [],
         OElements.major_semiaxis = 39.8151 \<rparr>,
       pert_calculator = PertPluto \<rparr>"

section \<open>The context (\<^verbatim>\<open>sphera.py\<close>)\<close>

text \<open>
  A \<^verbatim>\<open>CelestialSphera\<close> object. The first seven fields are the attributes that the
  constructor sets (\<open>ctx_t\<close> is the attribute \<^verbatim>\<open>_t\<close>, the time in Julian centuries).
  \<^verbatim>\<open>get_orbit_instance\<close> is decorated with \<^verbatim>\<open>functools.cache\<close>, which keeps, for each
  object and identifier, the value returned by the first call: \<open>orbit_cache\<close> is the part
  of that table that belongs to this object. \<open>instantiate_orbit_calls\<close> is not a part of
  the program: it records, in order, the identifiers with which \<^verbatim>\<open>_instantiate_orbit\<close>
  was called on this object, as the spy of \<^verbatim>\<open>test_sphera.py\<close> does.
\<close>

record CelestialSphera =
  ctx_t :: real
  manom_sun :: real
  sun_geo :: Polar
  obliquity :: real
  nutation :: Nutation
  apparent :: bool
  aux_sun :: "real list"
  orbit_cache :: "PlanetId \<rightharpoonup> OrbitInstance"
  instantiate_orbit_calls :: "PlanetId list"

text \<open>The constructor \<^verbatim>\<open>CelestialSphera.__init__\<close>; nothing is cached for a new object.\<close>

definition CelestialSphera_init ::
    "real \<Rightarrow> real \<Rightarrow> Polar \<Rightarrow> real \<Rightarrow> Nutation \<Rightarrow> bool \<Rightarrow> CelestialSphera" where
  "CelestialSphera_init t manom_sun' sun_geo' obliquity' nut apparent' =
     (let aux = replicate 6 0;
          aux = aux[0 := t / 5 + 0.1];
          aux = aux[1 := reduce_rad (4.14473 + 52.9691 * t)];
          aux = aux[2 := reduce_rad (4.641118 + 21.32991 * t)];
          aux = aux[3 := reduce_rad (4.250177 + 7.478172 * t)];
          aux = aux[4 := 5 * aux ! 2 - 2 * aux ! 1];
          aux = aux[5 := 2 * aux ! 1 - 6 * aux ! 2 + 3 * aux ! 3]
      in \<lparr> ctx_t = t, manom_sun = manom_sun', sun_geo = sun_geo', obliquity = obliquity',
           nutation = nut, apparent = apparent', aux_sun = aux,
           orbit_cache = Map.empty, instantiate_orbit_calls = [] \<rparr>)"

text \<open>
  The methods that read or fill the cache take the context and return it with their result.
  Where a method can raise an exception, the result is the exception alone: what the
  context holds after an exception is not modelled.
\<close>

definition instantiate_orbit ::
    "CelestialSphera \<Rightarrow> PlanetId \<Rightarrow> OrbitInstance \<times> CelestialSphera" where
  "instantiate_orbit ctx pid =
     (let pla = for_id pid
      in (instantiate (orbit pla) (ctx_t ctx),
          ctx\<lparr>instantiate_orbit_calls := instantiate_orbit_calls ctx @ [pid]\<rparr>))"

definition get_orbit_instance ::
    "CelestialSphera \<Rightarrow> PlanetId \<Rightarrow> OrbitInstance \<times> CelestialSphera" where
  "get_orbit_instance ctx pid =
     (case orbit_cache ctx pid of
        Some oi \<Rightarrow> (oi, ctx)
      | None \<Rightarrow>
          (let (oi, ctx) = instantiate_orbit ctx pid
           in (oi, ctx\<lparr>orbit_cache := (orbit_cache ctx)(pid \<mapsto> oi)\<rparr>)))"

definition get_mean_anomaly ::
    "CelestialSphera \<Rightarrow> PlanetId \<Rightarrow> real option \<Rightarrow> real \<times> CelestialSphera" where
  "get_mean_anomaly ctx pid dt =
     (let (oi, ctx) = get_orbit_instance ctx pid;
          ma = OrbitInstance.mean_anomaly oi;
          ma = (case dt of
                  None \<Rightarrow> ma
                | Some dt \<Rightarrow> ma - radians (dt * OElements_daily_motion (orbit (for_id pid))))
      in (ma, ctx))"


section \<open>Perturbations (\<^verbatim>\<open>pert.py\<close>)\<close>

text \<open>
  Each \<^verbatim>\<open>get_data(ctx, dt)\<close> returns a \<open>PertRecord\<close> and, as it may call
  \<^verbatim>\<open>ctx.get_mean_anomaly\<close> and \<^verbatim>\<open>ctx.get_orbit_instance\<close>, the context. The series of
  Jupiter, Saturn, Uranus and Neptune divide by the eccentricity \<open>s\<close> of the planet.
  Fields that a \<^verbatim>\<open>PertRecord(...)\<close> call does not name are 0.
\<close>

definition PertCalculator_get_data ::
    "CelestialSphera \<Rightarrow> real \<Rightarrow> error + (PertRecord \<times> CelestialSphera)" where
  "PertCalculator_get_data ctx dt = Inr (PertRecord 0 0 0 0 0 0 0, ctx)"

text \<open>\<^verbatim>\<open>PertMercury.get_data\<close> (pert.py, lines 67 to 93).\<close>

definition PertMercury_get_data :: "CelestialSphera \<Rightarrow> real \<Rightarrow> error + (PertRecord \<times> CelestialSphera)" where
  "PertMercury_get_data ctx dt =
    (let
        (me, ctx) = get_mean_anomaly ctx MERCURY (Some dt);
        (ve, ctx) = get_mean_anomaly ctx VENUS (Some dt);
        (ju, ctx) = get_mean_anomaly ctx JUPITER (Some dt);
        dl = (
            0.00204 * cos (5 * ve - 2 * me + 0.21328)
            + 0.00103 * cos (2 * ve - me - 2.8046)
            + 0.00091 * cos (2 * ju - me - 0.64582)
            + 0.00078 * cos (5 * ve - 3 * me + 0.17692)
        );
        dr = (
            0.000007525 * cos (2 * ju - me + 0.925251)
            + 0.000006802 * cos (5 * ve - 3 * me - 4.53642)
            + 0.000005457 * cos (2 * ve - 2 * me - 1.24246)
            + 0.000003569 * cos (5 * ve - me - 1.35699)
        )
     in
     Inr (PertRecord dl dr 0 0 0 0 0, ctx))"

text \<open>\<^verbatim>\<open>PertVenus.get_data\<close> (pert.py, lines 96 to 127).\<close>

definition PertVenus_get_data :: "CelestialSphera \<Rightarrow> real \<Rightarrow> error + (PertRecord \<times> CelestialSphera)" where
  "PertVenus_get_data ctx dt =
    (let
        t = ctx_t ctx;
        ms = manom_sun ctx;
        (ve, ctx) = get_mean_anomaly ctx VENUS (Some dt);
        (ju, ctx) = get_mean_anomaly ctx JUPITER (Some dt);
        dl = (
            0.00313 * cos (2 * ms - 2 * ve - 2.587)
            + 0.00198 * cos (3 * ms - 3 * ve + 0.044768)
            + 0.00136 * cos (ms - ve - 2.0788)
            + 0.00096 * cos (3 * ms - 2 * ve - 2.3721)
            + 0.00082 * cos (ju - ve - 3.6318)
        );
        dr = (
            0.000022501 * cos (2 * ms - 2 * ve - 1.01592)
            + 0.000019045 * cos (3 * ms - 3 * ve + 1.61577)
            + 0.000006887 * cos (ju - ve - 2.06106)
            + 0.000005172 * cos (ms - ve - 0.508065)
            + 0.00000362 * cos (5 * ms - 4 * ve - 1.81877)
            + 0.000003283 * cos (4 * ms - 4 * ve + 1.10851)
            + 0.000003074 * cos (2 * ju - 2 * ve - 0.962846)
        );
        dm = radians (0.00077 * sin (4.1406 + t * 2.6227))
     in
     Inr (PertRecord dl dr dm 0 dm 0 0, ctx))"

text \<open>\<^verbatim>\<open>PertMars.get_data\<close> (pert.py, lines 130 to 178).\<close>

definition PertMars_get_data :: "CelestialSphera \<Rightarrow> real \<Rightarrow> error + (PertRecord \<times> CelestialSphera)" where
  "PertMars_get_data ctx dt =
    (let
        (ve, ctx) = get_mean_anomaly ctx VENUS (Some dt);
        (ju, ctx) = get_mean_anomaly ctx JUPITER (Some dt);
        ms = manom_sun ctx;
        (ma, ctx) = get_mean_anomaly ctx MARS (Some dt);
        a = 3 * ju - 8 * ma + 4 * ms;
        sa = sin (a);
        ca = cos (a);
        dl = (
            0.00705 * cos (ju - ma - 0.85448)
            + 0.00607 * cos (2 * ju - ma - 3.2873)
            + 0.00445 * cos (2 * ju - 2 * ma - 3.3492)
            + 0.00388 * cos (ms - 2 * ma + 0.35771)
            + 0.00238 * cos (ms - ma + 0.61256)
            + 0.00204 * cos (2 * ms - 3 * ma + 2.7688)
            + 0.00177 * cos (3 * ma - ve - 1.0053)
            + 0.00136 * cos (2 * ms - 4 * ma + 2.6894)
            + 0.00104 * cos (ju + 0.30749)
        );
        dr = (
            0.000053227 * cos (ju - ma + 0.717864)
            + 0.000050989 * cos (2 * ju - 2 * ma - 1.77997)
            + 0.000038278 * cos (2 * ju - ma - 1.71617)
            + 0.000015996 * cos (ms - ma - 0.969618)
            + 0.000014764 * cos (2 * ms - 3 * ma + 1.19768)
            + 0.000008966 * cos (ju - 2 * ma + 0.761225)
            + 0.000007914 * cos (3 * ju - 2 * ma - 2.43887)
            + 0.000007004 * cos (2 * ju - 3 * ma - 1.79573)
            + 0.00000662 * cos (ms - 2 * ma + 1.97575)
            + 0.00000493 * cos (3 * ju - 3 * ma - 1.33069)
            + 0.000004693 * cos (3 * ms - 5 * ma + 3.32665)
            + 0.000004571 * cos (2 * ms - 4 * ma + 4.27086)
            + 0.000004409 * cos (3 * ju - ma - 2.02158)
        );
        dm = radians (-(0.01133 * sa + 0.00933 * ca))
     in
     Inr (PertRecord dl dr dm 0 dm 0 0, ctx))"

text \<open>\<^verbatim>\<open>PertJupiter.get_data\<close> (pert.py, lines 181 to 315).\<close>

definition PertJupiter_get_data :: "CelestialSphera \<Rightarrow> real \<Rightarrow> error + (PertRecord \<times> CelestialSphera)" where
  "PertJupiter_get_data ctx dt =
    (let
        (oi, ctx) = get_orbit_instance ctx JUPITER;
        s = OrbitInstance.eccentricity oi;
        x = aux_sun ctx;
        x1 = x ! 0;
        x2 = x ! 1;
        x3 = x ! 2;
        x5 = x ! 4;
        x6 = x ! 5;
        x7 = x3 - x2;
        sx3 = sin (x3);
        cx3 = cos (x3);
        s2x3 = sin (2 * x3);
        c2x3 = cos (2 * x3);
        sx5 = sin (x5);
        cx5 = cos (x5);
        s2x5 = sin (2 * x5);
        sx6 = sin (x6);
        sx7 = sin (x7);
        cx7 = cos (x7);
        s2x7 = sin (2 * x7);
        c2x7 = cos (2 * x7);
        s3x7 = sin (3 * x7);
        c3x7 = cos (3 * x7);
        s4x7 = sin (4 * x7);
        c4x7 = cos (4 * x7);
        c5x7 = cos (5 * x7);
        dml = (
            (0.331364 - (0.010281 + 0.004692 * x1) * x1) * sx5
            + (0.003228 - (0.064436 - 0.002075 * x1) * x1) * cx5
            - (0.003083 + (0.000275 - 0.000489 * x1) * x1) * s2x5
            + 0.002472 * sx6
            + 0.013619 * sx7
            + 0.018472 * s2x7
            + 0.006717 * s3x7
            + 0.002775 * s4x7
            + 0.006417 * s2x7 * sx3
            + (0.007275 - 0.001253 * x1) * sx7 * sx3
            + 0.002439 * s3x7 * sx3
            - (0.035681 + 0.001208 * x1) * sx7 * cx3
            - 0.003767 * c2x7 * sx3
            - (0.033839 + 0.001125 * x1) * cx7 * sx3
            - 0.004261 * s2x7 * cx3
            + (0.001161 * x1 - 0.006333) * cx7 * cx3
            + 0.002178 * cx3
            - 0.006675 * c2x7 * cx3
            - 0.002664 * c3x7 * cx3
            - 0.002572 * sx7 * s2x3
            - 0.003567 * s2x7 * s2x3
            + 0.002094 * cx7 * c2x3
            + 0.003342 * c2x7 * c2x3
        );
        dml = radians (dml);
        ds = (
            (3606 + (130 - 43 * x1) * x1) * sx5
            + (1289 - 580 * x1) * cx5
            - 6764 * sx7 * sx3
            - 1110 * s2x7 * sx3
            - 224 * s3x7 * sx3
            - 204 * sx3
            + (1284 + 116 * x1) * cx7 * sx3
            + 188 * c2x7 * sx3
            + (1460 + 130 * x1) * sx7 * cx3
            + 224 * s2x7 * cx3
            - 817 * cx3
            + 6074 * cx3 * cx7
            + 992 * c2x7 * cx3
            + 508 * c3x7 * cx3
            + 230 * c4x7 * cx3
            + 108 * c5x7 * cx3
            - (956 + 73 * x1) * sx7 * s2x3
            + 448 * s2x7 * s2x3
            + 137 * s3x7 * s2x3
            + (108 * x1 - 997) * cx7 * s2x3
            + 480 * c2x7 * s2x3
            + 148 * c3x7 * s2x3
            + (99 * x1 - 956) * sx7 * c2x3
            + 490 * s2x7 * c2x3
            + 158 * s3x7 * c2x3
            + 179 * c2x3
            + (1024 + 75 * x1) * cx7 * c2x3
            - 437 * c2x7 * c2x3
            - 132 * c3x7 * c2x3
        );
        ds = ds * 0.0000001;
        dp = (
            (0.007192 - 0.003147 * x1) * sx5
            - 0.004344 * sx3
            + (x1 * (0.000197 * x1 - 0.000675) - 0.020428) * cx5
            + 0.034036 * cx7 * sx3
            + (0.007269 + 0.000672 * x1) * sx7 * sx3
            + 0.005614 * c2x7 * sx3
            + 0.002964 * c3x7 * sx3
            + 0.037761 * sx7 * cx3
            + 0.006158 * s2x7 * cx3
            - 0.006603 * cx7 * cx3
            - 0.005356 * sx7 * s2x3
            + 0.002722 * s2x7 * s2x3
            + 0.004483 * cx7 * s2x3
            - 0.002642 * c2x7 * s2x3
            + 0.004403 * sx7 * c2x3
            - 0.002536 * s2x7 * c2x3
            + 0.005547 * cx7 * c2x3
            - 0.002689 * c2x7 * c2x3
        )
     in
     if s = 0 then Inl ZeroDivisionError else
    (let
        dm = dml - radians (dp) / s;
        da = (
            205 * cx7
            - 263 * cx5
            + 693 * c2x7
            + 312 * c3x7
            + 147 * c4x7
            + 299 * sx7 * sx3
            + 181 * c2x7 * sx3
            + 204 * s2x7 * cx3
            + 111 * s3x7 * cx3
            - 337 * cx7 * cx3
            - 111 * c2x7 * cx3
        );
        da = da * 0.000001
     in
     Inr (PertRecord 0 0 dml ds dm da 0, ctx)))"

text \<open>\<^verbatim>\<open>PertSaturn.get_data\<close> (pert.py, lines 318 to 520).\<close>

definition PertSaturn_get_data :: "CelestialSphera \<Rightarrow> real \<Rightarrow> error + (PertRecord \<times> CelestialSphera)" where
  "PertSaturn_get_data ctx dt =
    (let
        (oi, ctx) = get_orbit_instance ctx SATURN;
        s = OrbitInstance.eccentricity oi;
        x = aux_sun ctx;
        x1 = x ! 0;
        x2 = x ! 1;
        x3 = x ! 2;
        x4 = x ! 3;
        x5 = x ! 4;
        x6 = x ! 5;
        x7 = x3 - x2;
        x8 = x4 - x3;
        sx3 = sin (x3);
        cx3 = cos (x3);
        s2x3 = sin (2 * x3);
        c2x3 = cos (2 * x3);
        sx5 = sin (x5);
        cx5 = cos (x5);
        s2x5 = sin (2 * x5);
        sx6 = sin (x6);
        sx7 = sin (x7);
        cx7 = cos (x7);
        s2x7 = sin (2 * x7);
        c2x7 = cos (2 * x7);
        s3x7 = sin (3 * x7);
        c3x7 = cos (3 * x7);
        s4x7 = sin (4 * x7);
        c4x7 = cos (4 * x7);
        c5x7 = cos (5 * x7);
        s3x3 = sin (3 * x3);
        c3x3 = cos (3 * x3);
        s4x3 = sin (4 * x3);
        c4x3 = cos (4 * x3);
        c2x5 = cos (2 * x5);
        s5x7 = sin (5 * x7);
        s2x8 = sin (2 * x8);
        c2x8 = cos (2 * x8);
        s3x8 = sin (3 * x8);
        c3x8 = cos (3 * x8);
        dml = (
            0.007581 * s2x5
            - 0.007986 * sx6
            - 0.148811 * sx7
            - 0.040786 * s2x7
            - (0.814181 - (0.01815 - 0.016714 * x1) * x1) * sx5
            - (0.010497 - (0.160906 - 0.0041 * x1) * x1) * cx5
            - 0.015208 * s3x7
            - 0.006339 * s4x7
            - 0.006244 * sx3
            - 0.0165 * s2x7 * sx3
            + (0.008931 + 0.002728 * x1) * sx7 * sx3
            - 0.005775 * s3x7 * sx3
            + (0.081344 + 0.003206 * x1) * cx7 * sx3
            + 0.015019 * c2x7 * sx3
            + (0.085581 + 0.002494 * x1) * sx7 * cx3
            + 0.014394 * c2x7 * cx3
            + (0.025328 - 0.003117 * x1) * cx7 * cx3
            + 0.006319 * c3x7 * cx3
            + 0.006369 * sx7 * s2x3
            + 0.009156 * s2x7 * s2x3
            + 0.007525 * s3x8 * s2x3
            - 0.005236 * cx7 * c2x3
            - 0.007736 * c2x7 * c2x3
            - 0.007528 * c3x8 * c2x3
        );
        dml = radians (dml);
        ds = (
            (-7927 + (2548 + 91 * x1) * x1) * sx5
            + (13381 + (1226 - 253 * x1) * x1) * cx5
            + (248 - 121 * x1) * s2x5
            - (305 + 91 * x1) * c2x5
            + 412 * s2x7
            + 12415 * sx3
            + (390 - 617 * x1) * sx7 * sx3
            + (165 - 204 * x1) * s2x7 * sx3
            + 26599 * cx7 * sx3
            - 4687 * c2x7 * sx3
            - 1870 * c3x7 * sx3
            - 821 * c4x7 * sx3
            - 377 * c5x7 * sx3
            + 497 * c2x8 * sx3
            + (163 - 611 * x1) * cx3
            - 12696 * sx7 * cx3
            - 4200 * s2x7 * cx3
            - 1503 * s3x7 * cx3
            - 619 * s4x7 * cx3
            - 268 * s5x7 * cx3
            - (282 + 1306 * x1) * cx7 * cx3
            + (-86 + 230 * x1) * c2x7 * cx3
            + 461 * s2x8 * cx3
            - 350 * s2x3
            + (2211 - 286 * x1) * sx7 * s2x3
            - 2208 * s2x7 * s2x3
            - 568 * s3x7 * s2x3
            - 346 * s4x7 * s2x3
            - (2780 + 222 * x1) * cx7 * s2x3
            + (2022 + 263 * x1) * c2x7 * s2x3
            + 248 * c3x7 * s2x3
            + 242 * s3x8 * s2x3
            + 467 * c3x8 * s2x3
            - 490 * c2x3
            - (2842 + 279 * x1) * sx7 * c2x3
            + (128 + 226 * x1) * s2x7 * c2x3
            + 224 * s3x7 * c2x3
            + (-1594 + 282 * x1) * cx7 * c2x3
            + (2162 - 207 * x1) * c2x7 * c2x3
            + 561 * c3x7 * c2x3
            + 343 * c4x7 * c2x3
            + 469 * s3x8 * c2x3
            - 242 * c3x8 * c2x3
            - 205 * sx7 * s3x3
            + 262 * s3x7 * s3x3
            + 208 * cx7 * c3x3
            - 271 * c3x7 * c3x3
            - 382 * c3x7 * s4x3
            - 376 * s3x7 * c4x3
        );
        ds = ds * 0.0000001;
        dp = (
            (0.077108 + (0.007186 - 0.001533 * x1) * x1) * sx5
            - 0.007075 * sx7
            + (0.045803 - (0.014766 + 0.000536 * x1) * x1) * cx5
            - 0.072586 * cx3
            - 0.075825 * sx7 * sx3
            - 0.024839 * s2x7 * sx3
            - 0.008631 * s3x7 * sx3
            - 0.150383 * cx7 * cx3
            + 0.026897 * c2x7 * cx3
            + 0.010053 * c3x7 * cx3
            - (0.013597 + 0.001719 * x1) * sx7 * s2x3
            + 0.011981 * s2x7 * c2x3
            - (0.007742 - 0.001517 * x1) * cx7 * s2x3
            + (0.013586 - 0.001375 * x1) * c2x7 * c2x3
            - (0.013667 - 0.001239 * x1) * sx7 * c2x3
            + (0.014861 + 0.001136 * x1) * cx7 * c2x3
            - (0.013064 + 0.001628 * x1) * c2x7 * c2x3
        )
     in
     if s = 0 then Inl ZeroDivisionError else
    (let
        dm = dml - radians (dp) / s;
        da = (
            572 * sx5
            - 1590 * s2x7 * cx3
            + 2933 * cx5
            - 647 * s3x7 * cx3
            + 33629 * cx7
            - 344 * s4x7 * cx3
            - 3081 * c2x7
            + 2885 * cx7 * cx3
            - 1423 * c3x7
            + (2172 + 102 * x1) * c2x7 * cx3
            - 671 * c4x7
            + 296 * c3x7 * cx3
            - 320 * c5x7
            - 267 * s2x7 * s2x3
            + 1098 * sx3
            - 778 * cx7 * s2x3
            - 2812 * sx7 * sx3
            + 495 * c2x7 * s2x3
            + 688 * s2x7 * sx3
            + 250 * c3x7 * s2x3
            - 393 * s3x7 * sx3
            - 856 * sx7 * c2x3
            - 228 * s4x7 * sx3
            + 441 * s2x7 * c2x3
            + 2138 * cx7 * sx3
            + 296 * c2x7 * c2x3
            - 999 * c2x7 * sx3
            + 211 * c3x7 * c2x3
            - 642 * c3x7 * sx3
            - 427 * sx7 * s3x3
            - 325 * c4x7 * sx3
            + 398 * s3x7 * s3x3
            - 890 * cx3
            + 344 * cx7 * c3x3
            + 2206 * sx7 * cx3
            - 427 * c3x7 * c3x3
        );
        da = da * 0.000001;
        dhl = (
            0.000747 * cx7 * sx3
            + 0.001069 * cx7 * cx3
            + 0.002108 * s2x7 * s2x3
            + 0.001261 * c2x7 * s2x3
            + 0.001236 * s2x7 * c2x3
            - 0.002075 * c2x7 * c2x3
        );
        dhl = radians (dhl)
     in
     Inr (PertRecord 0 0 dml ds dm da dhl, ctx)))"

text \<open>\<^verbatim>\<open>PertUranus.get_data\<close> (pert.py, lines 523 to 602).\<close>

definition PertUranus_get_data :: "CelestialSphera \<Rightarrow> real \<Rightarrow> error + (PertRecord \<times> CelestialSphera)" where
  "PertUranus_get_data ctx dt =
    (let
        t = ctx_t ctx;
        (oi, ctx) = get_orbit_instance ctx URANUS;
        s = OrbitInstance.eccentricity oi;
        x = aux_sun ctx;
        x1 = x ! 0;
        x2 = x ! 1;
        x3 = x ! 2;
        x4 = x ! 3;
        x6 = x ! 5;
        x8 = reduce_rad (1.46205 + 3.81337 * t);
        x9 = 2 * x8 - x4;
        x10 = x4 - x2;
        x11 = x4 - x3;
        x12 = x8 - x4;
        sx9 = sin (x9);
        cx9 = cos (x9);
        s2x9 = sin (2 * x9);
        c2x9 = cos (2 * x9);
        dml = (
            (0.864319 - 0.001583 * x1) * sx9
            + (0.082222 - 0.006833 * x1) * cx9
            + 0.036017 * s2x9
            - 0.003019 * c2x9
            + 0.008122 * sin (x6)
        );
        dml = radians (dml);
        dp = 0.120303 * sx9 + 0.006197 * s2x9 + (0.019472 - 0.000947 * x1) * cx9
     in
     if s = 0 then Inl ZeroDivisionError else
    (let
        dm = dml - radians (dp) / s;
        ds = (163 * x1 - 3349) * sx9 + 20981 * cx9 + 1311 * c2x9;
        ds = ds * 0.0000001;
        da = -0.003825 * cx9;
        dl = (
            (0.010122 - 0.000988 * x1) * sin (x4 + x11)
            + (-0.038581 + (0.002031 - 0.00191 * x1) * x1) * cos (x4 + x11)
            + (0.034964 - (0.001038 - 0.000868 * x1) * x1) * cos (2 * x4 + x11)
            + 0.005594 * sin (x4 + 3 * x12)
            - 0.014808 * sin (x10)
            - 0.005794 * sin (x11)
            + 0.002347 * cos (x11)
            + 0.009872 * sin (x12)
            + 0.008803 * sin (2 * x12)
            - 0.004308 * sin (3 * x12)
        );
        sx11 = sin (x11);
        cx11 = cos (x11);
        sx4 = sin (x4);
        cx4 = cos (x4);
        s2x4 = sin (2 * x4);
        c2x4 = cos (2 * x4);
        dhl = (
            (0.000458 * sx11 - 0.000642 * cx11 - 0.000517 * cos (4 * x12)) * sx4
            - (0.000347 * sx11 + 0.000853 * cx11 + 0.000517 * sin (4 * x11)) * cx4
            + 0.000403 * (cos (2 * x12) * s2x4 + sin (2 * x12) * c2x4)
        );
        dhl = radians (dhl);
        dr = (
            -25948
            + 4985 * cos (x10)
            - 1230 * cx4
            + 3354 * cos (x11)
            + 904 * cos (2 * x12)
            + 894 * (cos (x12) - cos (3 * x12))
            + (5795 * cx4 - 1165 * sx4 + 1388 * c2x4) * sx11
            + (1351 * cx4 + 5702 * sx4 + 1388 * s2x4) * cos (x11)
        );
        dr = dr * 0.000001
     in
     Inr (PertRecord dl dr dml ds dm da dhl, ctx)))"

text \<open>\<^verbatim>\<open>PertNeptune.get_data\<close> (pert.py, lines 605 to 659).\<close>

definition PertNeptune_get_data :: "CelestialSphera \<Rightarrow> real \<Rightarrow> error + (PertRecord \<times> CelestialSphera)" where
  "PertNeptune_get_data ctx dt =
    (let
        t = ctx_t ctx;
        (oi, ctx) = get_orbit_instance ctx NEPTUNE;
        s = OrbitInstance.eccentricity oi;
        x = aux_sun ctx;
        x1 = x ! 0;
        x2 = x ! 1;
        x3 = x ! 2;
        x4 = x ! 3;
        x8 = reduce_rad (1.46205 + 3.81337 * t);
        x9 = 2 * x8 - x4;
        x10 = x8 - x2;
        x11 = x8 - x3;
        x12 = x8 - x4;
        sx9 = sin (x9);
        cx9 = cos (x9);
        s2x9 = sin (2 * x9);
        c2x9 = cos (2 * x9);
        dml = (
            (0.001089 * x1 - 0.589833) * sx9
            + (0.004658 * x1 - 0.056094) * cx9
            - 0.024286 * s2x9
        );
        dml = radians (dml);
        dp = 0.024039 * sx9 - 0.025303 * cx9 + 0.006206 * s2x9 - 0.005992 * c2x9
     in
     if s = 0 then Inl ZeroDivisionError else
    (let
        dm = dml - radians (dp) / s;
        ds = 4389 * sx9 + 1129 * s2x9 + 4262 * cx9 + 1089 * c2x9;
        ds = ds * 0.0000001;
        da = 8189 * cx9 - 817 * sx9 + 781 * c2x9;
        da = da * 0.000001;
        s2x12 = sin (2 * x12);
        c2x12 = cos (2 * x12);
        sx8 = sin (x8);
        cx8 = cos (x8);
        dl = (
            -0.009556 * sin (x10)
            - 0.005178 * sin (x11)
            + 0.002572 * s2x12
            - 0.002972 * c2x12 * sx8
            - 0.002833 * s2x12 * cx8
        );
        dhl = 0.000336 * c2x12 * sx8 + 0.000364 * s2x12 * cx8;
        dhl = radians (dhl);
        dr = -40596 + 4992 * cos (x10) + 2744 * cos (x11) + 2044 * cos (x12) + 1051 * c2x12;
        dr = dr * 0.000001
     in
     Inr (PertRecord dl dr dml ds dm da dhl, ctx)))"

text \<open>\<^verbatim>\<open>PertPluto.get_data\<close> (pert.py, lines 662 to 670).\<close>

definition PertPluto_get_data ::
    "CelestialSphera \<Rightarrow> real \<Rightarrow> error + (PertRecord \<times> CelestialSphera)" where
  "PertPluto_get_data ctx dt = Inr (PertRecord 0 0 0 0 0 0 0, ctx)"

text \<open>The method call \<^verbatim>\<open>calculator.get_data(ctx, dt)\<close>, resolved by the class of the object.\<close>

fun get_data ::
    "PertCalculator \<Rightarrow> CelestialSphera \<Rightarrow> real \<Rightarrow> error + (PertRecord \<times> CelestialSphera)" where
  "get_data (PertCalculator pid) ctx dt = PertCalculator_get_data ctx dt"
| "get_data PertMercury ctx dt = PertMercury_get_data ctx dt"
| "get_data PertVenus ctx dt = PertVenus_get_data ctx dt"
| "get_data PertMars ctx dt = PertMars_get_data ctx dt"
| "get_data PertJupiter ctx dt = PertJupiter_get_data ctx dt"
| "get_data PertSaturn ctx dt = PertSaturn_get_data ctx dt"
| "get_data PertUranus ctx dt = PertUranus_get_data ctx dt"
| "get_data PertNeptune ctx dt = PertNeptune_get_data ctx dt"
| "get_data PertPluto ctx dt = PertPluto_get_data ctx dt"


section \<open>The planets (\<^verbatim>\<open>planet.py\<close>): positions\<close>

definition calculate_perturbations ::
    "Planet \<Rightarrow> CelestialSphera \<Rightarrow> real \<Rightarrow> error + (PertRecord \<times> CelestialSphera)" where
  "calculate_perturbations self ctx dt = get_data (pert_calculator self) ctx dt"

text \<open>
  \<^verbatim>\<open>Planet._calculate_heliocentric(oi, ma, re, lg, pert)\<close>. It does not return when the
  Kepler solver does not; it raises what the solver and \<^verbatim>\<open>true_anomaly\<close> raise, and the
  exceptions of its own division, of \<^verbatim>\<open>asin\<close> and of \<^verbatim>\<open>sqrt\<close>.
\<close>

definition calculate_heliocentric ::
    "OrbitInstance \<Rightarrow> real \<Rightarrow> real \<Rightarrow> real \<Rightarrow> PertRecord \<Rightarrow> (error + HelioRecord) option" where
  "calculate_heliocentric oi ma re lg pert =
     (case pert of PertRecord pert_dl pert_dr pert_dml pert_ds pert_dm pert_da pert_dhl \<Rightarrow>
      let s = OrbitInstance.eccentricity oi + pert_ds;
          ma = reduce_rad (ma + pert_dm)
      in case eccentric_anomaly s ma None of
           None \<Rightarrow> None
         | Some (Inl e) \<Rightarrow> Some (Inl e)
         | Some (Inr ea) \<Rightarrow>
      (case true_anomaly s ea of
           Inl e \<Rightarrow> Some (Inl e)
         | Inr nu \<Rightarrow>
      if 1 + s * cos nu = 0 then Some (Inl ZeroDivisionError) else
      let rp = (OrbitInstance.major_semiaxis oi + pert_da) * (1 - s * s) / (1 + s * cos nu)
                 + pert_dr;
          lp = nu + OrbitInstance.perihelion oi + (pert_dml - pert_dm);
          lo = lp - OrbitInstance.mean_node oi;
          sin_lo = sin lo;
          spsi = sin_lo * sin (OrbitInstance.inclination oi);
          psi = sin_lo * sin (OrbitInstance.inclination oi);
          y = sin_lo * cos (OrbitInstance.inclination oi)
      in
      if 1 < \<bar>spsi\<bar> then Some (Inl ValueError) else
      let psi = arcsin spsi + pert_dhl;
          lpd = atan2 y (cos lo) + OrbitInstance.mean_node oi + radians pert_dl;
          cpsi = cos psi;
          ll = lpd - lg
      in
      if re * re + rp * rp - 2 * re * rp * cpsi * cos ll < 0 then Some (Inl ValueError) else
      let rho = sqrt (re * re + rp * rp - 2 * re * rp * cpsi * cos ll)
      in Some (Inr (HelioRecord ll (rp * cpsi) lpd (sin psi) cpsi rho))))"

text \<open>
  \<^verbatim>\<open>Planet._get_corrected_helio(ctx, oi, lg, rg, dt=0, rho=0)\<close> calls itself when
  \<^verbatim>\<open>dt == 0\<close>. The recursion is modelled as it is written, on a stack without limit, so
  the function is partial: \<open>None\<close> means that the call does not return (the interpreter
  ends such a call by \<^verbatim>\<open>RecursionError\<close> when its stack is full).
\<close>

partial_function (option) get_corrected_helio ::
    "Planet \<Rightarrow> CelestialSphera \<Rightarrow> OrbitInstance \<Rightarrow> real \<Rightarrow> real \<Rightarrow> real \<Rightarrow> real
      \<Rightarrow> (error + (HelioRecord \<times> CelestialSphera)) option" where
  "get_corrected_helio self ctx oi lg rg dt rho =
     (case get_mean_anomaly ctx (planet_id self) (Some dt) of (ma, ctx) \<Rightarrow>
      case calculate_perturbations self ctx dt of
        Inl e \<Rightarrow> Some (Inl e)
      | Inr (pert, ctx) \<Rightarrow>
      case calculate_heliocentric oi ma rg lg pert of
        None \<Rightarrow> None
      | Some (Inl e) \<Rightarrow> Some (Inl e)
      | Some (Inr h) \<Rightarrow>
      case h of HelioRecord h_ll h_rpd h_lpd h_spsi h_cpsi h_rho \<Rightarrow>
      if dt = 0
      then get_corrected_helio self ctx oi lg rg (h_rho * 0.005775518) h_rho
      else Some (Inr (HelioRecord h_ll h_rpd h_lpd h_spsi h_cpsi rho, ctx)))"

text \<open>
  One pass: the three statements at the head of \<^verbatim>\<open>_get_corrected_helio\<close> (the mean
  anomaly for the delay \<open>dt\<close>, the perturbations, the heliocentric frame).
\<close>

definition helio_pass ::
    "Planet \<Rightarrow> CelestialSphera \<Rightarrow> OrbitInstance \<Rightarrow> real \<Rightarrow> real \<Rightarrow> real
      \<Rightarrow> (error + (HelioRecord \<times> CelestialSphera)) option" where
  "helio_pass self ctx oi lg rg dt =
     (case get_mean_anomaly ctx (planet_id self) (Some dt) of (ma, ctx) \<Rightarrow>
      case calculate_perturbations self ctx dt of
        Inl e \<Rightarrow> Some (Inl e)
      | Inr (pert, ctx) \<Rightarrow>
      case calculate_heliocentric oi ma rg lg pert of
        None \<Rightarrow> None
      | Some (Inl e) \<Rightarrow> Some (Inl e)
      | Some (Inr h) \<Rightarrow> Some (Inr (h, ctx)))"

text \<open>
  The part of \<^verbatim>\<open>Planet.geocentric_position\<close> after the heliocentric frame \<open>h\<close> is known
  (lines 208 to 230): conversion to geocentric coordinates, then nutation and aberration
  if the context asks for apparent positions.
\<close>

definition convert_to_geocentric ::
    "Planet \<Rightarrow> CelestialSphera \<Rightarrow> real \<Rightarrow> real \<Rightarrow> HelioRecord \<Rightarrow> error + EclipticPosition" where
  "convert_to_geocentric self ctx lg rsn h =
     (case h of HelioRecord h_ll h_rpd h_lpd h_spsi h_cpsi h_rho \<Rightarrow>
      let sll = sin h_ll;
          cll = cos h_ll;
          lam = (if is_inner self
                 then atan2 (- 1 * h_rpd * sll) (rsn - h_rpd * cll) + lg + pi
                 else atan2 (rsn * sll) (h_rpd - rsn * cll) + h_lpd);
          lam = reduce_rad lam
      in
      if h_cpsi * rsn * sll = 0 then Inl ZeroDivisionError else
      let bet = arctan (h_rpd * h_spsi * sin (lam - h_lpd) / (h_cpsi * rsn * sll))
      in
      if apparent ctx
      then
        (let lam = lam + radians (dpsi (nutation ctx));
             a = lg - lam
         in
         if cos bet = 0 then Inl ZeroDivisionError else
         let lam = lam - 0.000099387 * cos a / cos bet;
             lam = reduce_rad lam;
             bet = bet - 0.000099387 * sin a * sin bet
         in Inr \<lparr> lmbda = degrees lam, beta = degrees bet, delta = h_rho \<rparr>)
      else Inr \<lparr> lmbda = degrees lam, beta = degrees bet, delta = h_rho \<rparr>)"

text \<open>\<^verbatim>\<open>Planet.geocentric_position(ctx)\<close>.\<close>

definition geocentric_position ::
    "Planet \<Rightarrow> CelestialSphera \<Rightarrow> (error + (EclipticPosition \<times> CelestialSphera)) option" where
  "geocentric_position self ctx =
     (let sg = sun_geo ctx
      in case sg of Polar sg_phi sg_rho \<Rightarrow>
      let lg = radians sg_phi + pi;
          rsn = sg_rho;
          oi = instantiate (orbit self) (ctx_t ctx)
      in case get_corrected_helio self ctx oi lg rsn 0 0 of
           None \<Rightarrow> None
         | Some (Inl e) \<Rightarrow> Some (Inl e)
         | Some (Inr (h, ctx)) \<Rightarrow>
             (case convert_to_geocentric self ctx lg rsn h of
                Inl e \<Rightarrow> Some (Inl e)
              | Inr pos \<Rightarrow> Some (Inr (pos, ctx))))"

text \<open>
  The variant that the cache suggests: the same method, but the orbit instance is taken
  from \<^verbatim>\<open>ctx.get_orbit_instance(self.id)\<close> instead of \<^verbatim>\<open>self.orbit.instantiate(ctx.t)\<close>.
\<close>

definition geocentric_position_cached ::
    "Planet \<Rightarrow> CelestialSphera \<Rightarrow> (error + (EclipticPosition \<times> CelestialSphera)) option" where
  "geocentric_position_cached self ctx =
     (let sg = sun_geo ctx
      in case sg of Polar sg_phi sg_rho \<Rightarrow>
      let lg = radians sg_phi + pi;
          rsn = sg_rho
      in case get_orbit_instance ctx (planet_id self) of (oi, ctx) \<Rightarrow>
         case get_corrected_helio self ctx oi lg rsn 0 0 of
           None \<Rightarrow> None
         | Some (Inl e) \<Rightarrow> Some (Inl e)
         | Some (Inr (h, ctx)) \<Rightarrow>
             (case convert_to_geocentric self ctx lg rsn h of
                Inl e \<Rightarrow> Some (Inl e)
              | Inr pos \<Rightarrow> Some (Inr (pos, ctx))))"


section \<open>Contexts with a sound cache, and the inputs of the examples\<close>

text \<open>
  The cache of a context is sound when every orbit instance in it is the one that
  \<^verbatim>\<open>_instantiate_orbit\<close> computes for that identifier at the time of the context. A new
  context has an empty cache, and \<^verbatim>\<open>get_orbit_instance\<close> is the only method that writes
  to it.
\<close>

definition cache_valid :: "CelestialSphera \<Rightarrow> bool" where
  "cache_valid ctx =
     list_all
       (\<lambda>pid. case orbit_cache ctx pid of
                 None \<Rightarrow> True
               | Some oi \<Rightarrow> oi = instantiate (orbit (for_id pid)) (ctx_t ctx))
       [MERCURY, VENUS, MARS, JUPITER, SATURN, URANUS, NEPTUNE, PLUTO]"

text \<open>A new context, for \<open>t = 0\<close>.\<close>

definition new_context :: CelestialSphera where
  "new_context = CelestialSphera_init 0 0 (Polar 0 1) 0 (Nutation 0 0) True"

text \<open>
  A planet object built with the constructor of \<^verbatim>\<open>Planet\<close>: the identifier and the
  calculator of Pluto, and a circular orbit in the plane of the ecliptic, with semi-axis 1
  and perihelion at 345.413687588 degrees. The context is for \<open>t = 1\<close>, with the Sun at
  longitude -180 degrees and distance 1. At \<open>t = 1\<close> the mean anomaly registered for
  Pluto is 14.586312412 degrees.
\<close>

definition flat_planet :: Planet where
  "flat_planet =
     \<lparr> planet_id = PLUTO, name = ''Flat'', is_inner = False,
       orbit = \<lparr>
         OElements.mean_longitude = MLTerms 0 0 0 0,
         OElements.perihelion = Terms 345.413687588 [],
         OElements.eccentricity = Terms 0 [],
         OElements.inclination = Terms 0 [],
         OElements.mean_node = Terms 0 [],
         OElements.major_semiaxis = 1 \<rparr>,
       pert_calculator = PertPluto \<rparr>"

definition flat_context :: CelestialSphera where
  "flat_context = CelestialSphera_init 1 0 (Polar (- 180) 1) 0 (Nutation 0 0) False"

definition flat_context' :: CelestialSphera where
  "flat_context' = snd (get_orbit_instance flat_context PLUTO)"

definition flat_anomaly :: real where
  "flat_anomaly = radians 14.586312412"

text \<open>
  Orbital elements built with the constructor of \<^verbatim>\<open>OElements\<close>: the mean longitude is 0
  and the perihelion is at \<open>2\<^sup>-\<^sup>7\<^sup>0\<close> degrees; both are doubles.
\<close>

definition tiny_elements :: OElements where
  "tiny_elements =
     \<lparr> OElements.mean_longitude = MLTerms 0 0 0 0,
       OElements.perihelion = Terms (1 / 2 ^ 70) [],
       OElements.eccentricity = Terms 0 [],
       OElements.inclination = Terms 0 [],
       OElements.mean_node = Terms 0 [],
       OElements.major_semiaxis = 1 \<rparr>"

text \<open>
  An eccentricity (about 1.0033468) and a mean anomaly (about 0.0003347) for the Kepler
  solver.
\<close>

definition cycle_eccentricity :: real where
  "cycle_eccentricity = sin (1/10) / sin (2/10 - tan (1/10))"

definition cycle_anomaly :: real where
  "cycle_anomaly = tan (1/10) - 1/10"


section \<open>Properties of the angle reductions\<close>

declare for_id.simps [simp del]

text \<open>Over the real numbers the reductions keep their results below the modulus.\<close>

lemma fmod_nonneg_range:
  assumes "0 < r" "0 \<le> x"
  shows "0 \<le> fmod x r \<and> fmod x r < r"
proof -
  have q: "0 \<le> x / r" using assms by simp
  have eq: "fmod x r = r * (x / r - of_int \<lfloor>x / r\<rfloor>)"
    using assms q by (simp add: fmod_def trunc_def algebra_simps)
  have "0 \<le> x / r - of_int \<lfloor>x / r\<rfloor>" "x / r - of_int \<lfloor>x / r\<rfloor> < 1"
    by linarith+
  then show ?thesis
    using assms(1) unfolding eq by (auto simp: mult_less_cancel_left2 zero_le_mult_iff)
qed

lemma fmod_neg_range:
  assumes "0 < r" "x < 0"
  shows "- r < fmod x r \<and> fmod x r \<le> 0"
proof -
  have q: "x / r < 0" using assms by (simp add: divide_neg_pos)
  have eq: "fmod x r = r * (x / r - of_int \<lceil>x / r\<rceil>)"
    using assms q by (simp add: fmod_def trunc_def algebra_simps)
  have "- 1 < x / r - of_int \<lceil>x / r\<rceil>" "x / r - of_int \<lceil>x / r\<rceil> \<le> 0"
    by linarith+
  then have "r * (- 1) < r * (x / r - of_int \<lceil>x / r\<rceil>)"
      "r * (x / r - of_int \<lceil>x / r\<rceil>) \<le> r * 0"
    using assms(1) by (simp_all only: mult_less_cancel_left_pos mult_le_cancel_left_pos)
  then show ?thesis
    unfolding eq by simp
qed

lemma to_range_bounds:
  assumes "0 < r"
  shows "0 \<le> to_range x r \<and> to_range x r < r"
proof (cases "0 \<le> x")
  case True
  with assms fmod_nonneg_range [of r x] show ?thesis
    by (simp add: to_range_def Let_def)
next
  case False
  with assms fmod_neg_range [of r x] show ?thesis
    by (auto simp: to_range_def Let_def)
qed

lemma reduce_deg_bounds: "0 \<le> reduce_deg x \<and> reduce_deg x < 360"
  unfolding reduce_deg_def by (rule to_range_bounds) simp

lemma reduce_rad_bounds: "0 \<le> reduce_rad x \<and> reduce_rad x < 2 * pi"
  using to_range_bounds [of PI2 x] by (simp add: reduce_rad_def PI2_def mult.commute)


lemma trunc_small: "0 \<le> x \<Longrightarrow> x < 1 \<Longrightarrow> trunc x = 0"
  by (simp add: trunc_def floor_eq_iff)

lemma reduce_deg_id: "0 \<le> x \<Longrightarrow> x < 360 \<Longrightarrow> reduce_deg x = x"
  by (simp add: reduce_deg_def to_range_def fmod_def trunc_small)

lemma reduce_rad_id: "0 \<le> x \<Longrightarrow> x < 2 * pi \<Longrightarrow> reduce_rad x = x"
  by (simp add: reduce_rad_def PI2_def to_range_def fmod_def trunc_small)

lemma trunc_small_neg: "- 1 < x \<Longrightarrow> x < 0 \<Longrightarrow> trunc x = 0"
  by (simp add: trunc_def ceiling_eq_iff)

lemma reduce_deg_neg: "- 360 < x \<Longrightarrow> x < 0 \<Longrightarrow> reduce_deg x = x + 360"
  by (simp add: reduce_deg_def to_range_def fmod_def trunc_small_neg)

lemma polynome_single: "polynome t a [] = a"
  by (simp add: polynome_def)


section \<open>Orbital elements\<close>

text \<open>
  The wrap in double precision. The double next below 360 is \<open>360 - 2\<^sup>-\<^sup>4\<^sup>4\<close>, so the
  sum of 360 and a negative number above \<open>- 2\<^sup>-\<^sup>4\<^sup>5\<close> rounds to 360.
\<close>

lemma floor_log2_below_360: "\<lfloor>log 2 \<bar>360 - 1 / 2 ^ 70 :: real\<bar>\<rfloor> = 8"
proof -
  have p: "(0::real) < 360 - 1 / 2 ^ 70" by simp
  have a: "\<bar>360 - 1 / 2 ^ 70 :: real\<bar> = 360 - 1 / 2 ^ 70" using p by simp
  have l: "(2::real) powr 8 \<le> 360 - 1 / 2 ^ 70" by simp
  have u: "360 - 1 / 2 ^ 70 < (2::real) powr 9" by simp
  have "8 \<le> log 2 (360 - 1 / 2 ^ 70 :: real)"
    using l p by (simp only: le_log_iff one_less_numeral_iff semiring_norm)
  moreover have "log 2 (360 - 1 / 2 ^ 70 :: real) < 9"
    using u p by (simp only: log_less_iff one_less_numeral_iff semiring_norm)
  ultimately show ?thesis unfolding a by (simp add: floor_eq_iff)
qed

lemma binary64_below_360: "binary64 (360 - 1 / 2 ^ 70) = 360"
proof -
  have u: "(2::real) powr (of_int 8 - 52) = 1 / 2 ^ 44"
    by (simp add: powr_minus_divide)
  have q: "(360 - 1 / 2 ^ 70) / (1 / 2 ^ 44) = (6333186975989760 - 1 / 2 ^ 26 :: real)"
    by simp
  have f: "\<lfloor>6333186975989760 - 1 / 2 ^ 26 :: real\<rfloor> = 6333186975989759"
    by (simp add: floor_eq_iff)
  have r: "round_half_even (6333186975989760 - 1 / 2 ^ 26) = 6333186975989760"
    unfolding round_half_even_def Let_def f by simp
  have nz: "(360 - 1 / 2 ^ 70 :: real) \<noteq> 0" by simp
  show ?thesis
    unfolding binary64_def Let_def floor_log2_below_360 u q r using nz by simp
qed

lemma to_range_binary64_eq:
  "to_range_binary64 x r =
     (if fmod x r < 0 then binary64 (to_range x r) else to_range x r)"
  by (simp add: to_range_binary64_def to_range_def Let_def)

lemma reduce_deg_binary64_tiny: "reduce_deg_binary64 (- (1 / 2 ^ 70)) = 360"
proof -
  have t: "trunc (- (1 / 2 ^ 70) / 360) = 0"
    by (rule trunc_small_neg) simp_all
  have f: "fmod (- (1 / 2 ^ 70)) 360 = - (1 / 2 ^ 70)"
    unfolding fmod_def t by simp
  have "binary64 (- (1 / 2 ^ 70) + 360) = 360"
    using binary64_below_360 by (simp add: add.commute)
  then show ?thesis
    unfolding reduce_deg_binary64_def to_range_binary64_def Let_def f by simp
qed

lemma tiny_difference:
  "MLTerms_assemble (OElements.mean_longitude tiny_elements) 0
     - Terms_assemble (OElements.perihelion tiny_elements) 0 = - (1 / 2 ^ 70)"
  by (simp add: tiny_elements_def polynome_single frac360_def frac_def trunc_small reduce_deg_id)

text \<open>
  Claim C4. For every time \<open>t\<close>, the mean anomaly of the instantiated orbit is the
  difference of the assembled mean longitude and the assembled perihelion, taken in
  degrees, passed through \<^verbatim>\<open>reduce_deg\<close> and only then converted to radians. The
  claim and the docstring of \<^verbatim>\<open>to_range\<close> say that the reduced value is below 360. In
  double precision it is not: for the elements \<open>tiny_elements\<close> at \<open>t = 0\<close> the
  difference is \<open>- 2\<^sup>-\<^sup>7\<^sup>0\<close>, computed without rounding, and its reduction is 360, so
  the mean anomaly is the full circle.
\<close>

theorem instantiate_mean_anomaly_wrap:
  "OrbitInstance.mean_anomaly (instantiate oe t) =
     radians (reduce_deg (MLTerms_assemble (OElements.mean_longitude oe) t
                          - Terms_assemble (OElements.perihelion oe) t))
   \<and> MLTerms_assemble (OElements.mean_longitude tiny_elements) 0
       - Terms_assemble (OElements.perihelion tiny_elements) 0 = - (1 / 2 ^ 70)
   \<and> reduce_deg_binary64 (- (1 / 2 ^ 70)) = 360"
  using tiny_difference reduce_deg_binary64_tiny
  by (simp add: instantiate_def assemble_mean_anomaly_def Let_def)


section \<open>Perturbations of Pluto\<close>

text \<open>
  Claim C9. For every context and every delay, the perturbation calculator of Pluto
  returns a record whose seven fields \<open>dl\<close>, \<open>dr\<close>, \<open>dml\<close>, \<open>ds\<close>, \<open>dm\<close>, \<open>da\<close> and
  \<open>dhl\<close> are all zero, and it leaves the context as it is. It is the calculator of the
  planet registered for \<open>PLUTO\<close>.
\<close>

theorem PertPluto_get_data_zero:
  "get_data PertPluto ctx dt = Inr (PertRecord 0 0 0 0 0 0 0, ctx)
   \<and> pert_calculator (for_id PLUTO) = PertPluto
   \<and> calculate_perturbations (for_id PLUTO) ctx dt = Inr (PertRecord 0 0 0 0 0 0 0, ctx)"
  by (simp add: PertPluto_get_data_def calculate_perturbations_def for_id.simps)


section \<open>Eccentricities of 1 and more\<close>

text \<open>
  Claim C7, as stated, fails for the Kepler solver: it does not look at the eccentricity.
  With eccentricity 1 and mean anomaly 0 the first residual is 0 and the solver returns 0.
\<close>

theorem eccentric_anomaly_no_domain_check:
  "eccentric_anomaly 1 0 None = Some (Inr 0)"
  by (subst eccentric_anomaly.simps) (simp add: DELTA_def)

text \<open>
  Claim C7, amended. For every eccentricity \<open>s\<close> of at least 1 and every angle,
  \<^verbatim>\<open>true_anomaly\<close> returns no value: the division raises \<^verbatim>\<open>ZeroDivisionError\<close> when
  \<open>s = 1\<close>, and the square root raises \<^verbatim>\<open>ValueError\<close> when \<open>s > 1\<close>.
\<close>

theorem true_anomaly_fails:
  "1 \<le> s \<Longrightarrow>
     true_anomaly s ea = (if s = 1 then Inl ZeroDivisionError else Inl ValueError)"
  by (auto simp: true_anomaly_def divide_less_0_iff)

theorem true_anomaly_fails_witness:
  "(1::real) \<le> 2 \<and> true_anomaly 2 0 = Inl ValueError"
  using true_anomaly_fails [of 2 0] by simp


section \<open>The auxiliary angles of the context\<close>

text \<open>
  Claim C8, as stated, fails: the first auxiliary value is \<open>t / 5 + 0.1\<close> and is stored
  as it is. For \<open>t = - 1\<close> it is negative, so it is not in the range from 0 to \<open>2 * pi\<close>.
\<close>

theorem aux_sun_first_not_reduced:
  "aux_sun (CelestialSphera_init (- 1) 0 (Polar 0 1) 0 (Nutation 0 0) True) ! 0 < 0"
  by (simp add: CelestialSphera_init_def Let_def)

text \<open>
  Claim C8, amended. The constructor stores six auxiliary values. The first is the linear
  function \<open>t / 5 + 0.1\<close>, not reduced. The second, third and fourth are linear functions
  of \<open>t\<close>, each reduced on its own to the range from 0 (included) to \<open>2 * pi\<close>
  (excluded). The fifth and sixth are fixed linear combinations of the reduced second,
  third and fourth values, and are stored without a further reduction.
\<close>

theorem aux_sun_values:
  "length (aux_sun (CelestialSphera_init t ms sg ob nu ap)) = 6
   \<and> aux_sun (CelestialSphera_init t ms sg ob nu ap) ! 0 = t / 5 + 0.1
   \<and> aux_sun (CelestialSphera_init t ms sg ob nu ap) ! 1 = reduce_rad (4.14473 + 52.9691 * t)
   \<and> aux_sun (CelestialSphera_init t ms sg ob nu ap) ! 2 = reduce_rad (4.641118 + 21.32991 * t)
   \<and> aux_sun (CelestialSphera_init t ms sg ob nu ap) ! 3 = reduce_rad (4.250177 + 7.478172 * t)
   \<and> aux_sun (CelestialSphera_init t ms sg ob nu ap) ! 4 =
       5 * reduce_rad (4.641118 + 21.32991 * t) - 2 * reduce_rad (4.14473 + 52.9691 * t)
   \<and> aux_sun (CelestialSphera_init t ms sg ob nu ap) ! 5 =
       2 * reduce_rad (4.14473 + 52.9691 * t) - 6 * reduce_rad (4.641118 + 21.32991 * t)
       + 3 * reduce_rad (4.250177 + 7.478172 * t)
   \<and> 0 \<le> reduce_rad (4.14473 + 52.9691 * t) \<and> reduce_rad (4.14473 + 52.9691 * t) < 2 * pi
   \<and> 0 \<le> reduce_rad (4.641118 + 21.32991 * t) \<and> reduce_rad (4.641118 + 21.32991 * t) < 2 * pi
   \<and> 0 \<le> reduce_rad (4.250177 + 7.478172 * t) \<and> reduce_rad (4.250177 + 7.478172 * t) < 2 * pi"
  using reduce_rad_bounds
  by (simp add: CelestialSphera_init_def Let_def numeral_eq_Suc nth_list_update)


section \<open>The cache of orbit instances\<close>

lemma get_orbit_instance_miss:
  assumes "orbit_cache ctx pid = None"
  shows "get_orbit_instance ctx pid =
           (instantiate (orbit (for_id pid)) (ctx_t ctx),
            ctx\<lparr>instantiate_orbit_calls := instantiate_orbit_calls ctx @ [pid],
                orbit_cache := (orbit_cache ctx)(pid \<mapsto> instantiate (orbit (for_id pid)) (ctx_t ctx))\<rparr>)"
  using assms by (simp add: get_orbit_instance_def instantiate_orbit_def Let_def)

lemma get_orbit_instance_hit:
  assumes "orbit_cache ctx pid = Some oi"
  shows "get_orbit_instance ctx pid = (oi, ctx)"
  using assms by (simp add: get_orbit_instance_def)

lemma get_orbit_instance_cached:
  "orbit_cache (snd (get_orbit_instance ctx pid)) pid = Some (fst (get_orbit_instance ctx pid))"
proof (cases "orbit_cache ctx pid")
  case None
  then show ?thesis by (simp add: get_orbit_instance_miss)
next
  case (Some oi)
  then show ?thesis by (simp add: get_orbit_instance_hit)
qed

lemma get_orbit_instance_again:
  "get_orbit_instance (snd (get_orbit_instance ctx pid)) pid = get_orbit_instance ctx pid"
  using get_orbit_instance_cached [of ctx pid]
  by (simp add: get_orbit_instance_hit)

lemma get_orbit_instance_static:
  "ctx_t (snd (get_orbit_instance ctx pid)) = ctx_t ctx"
  by (cases "orbit_cache ctx pid") (simp_all add: get_orbit_instance_miss get_orbit_instance_hit)

lemma get_orbit_instance_calls:
  "instantiate_orbit_calls (snd (get_orbit_instance ctx pid)) =
     (if orbit_cache ctx pid = None then instantiate_orbit_calls ctx @ [pid]
      else instantiate_orbit_calls ctx)"
  by (cases "orbit_cache ctx pid") (simp_all add: get_orbit_instance_miss get_orbit_instance_hit)

text \<open>
  Claim C5. Take any context and identifier, call \<^verbatim>\<open>get_orbit_instance\<close>, and call it
  again with the same identifier on the context as the first call left it. The second call
  returns the value that the first call returned and cached, and leaves the context, its
  cache and the record of instantiations included, exactly as it was. When nothing was
  cached for the identifier before the first call, as in a new context, the two calls
  together invoke \<^verbatim>\<open>_instantiate_orbit\<close> exactly once, in the first call, for this
  identifier; when a value was already cached, neither call invokes it.
\<close>

theorem get_orbit_instance_twice:
  "(let r1 = get_orbit_instance ctx pid;
        r2 = get_orbit_instance (snd r1) pid
    in fst r2 = fst r1
       \<and> snd r2 = snd r1
       \<and> orbit_cache (snd r1) pid = Some (fst r1)
       \<and> (orbit_cache ctx pid = None \<longrightarrow>
            instantiate_orbit_calls (snd r1) = instantiate_orbit_calls ctx @ [pid]
            \<and> instantiate_orbit_calls (snd r2) = instantiate_orbit_calls ctx @ [pid]
            \<and> fst r1 = instantiate (orbit (for_id pid)) (ctx_t ctx))
       \<and> (orbit_cache ctx pid \<noteq> None \<longrightarrow>
            instantiate_orbit_calls (snd r2) = instantiate_orbit_calls ctx))"
  unfolding Let_def
  by (simp add: get_orbit_instance_again get_orbit_instance_cached get_orbit_instance_calls)
     (simp add: get_orbit_instance_miss)

theorem get_orbit_instance_twice_witness:
  "orbit_cache new_context MERCURY = None
   \<and> instantiate_orbit_calls
        (snd (get_orbit_instance (snd (get_orbit_instance new_context MERCURY)) MERCURY))
       = [MERCURY]"
proof -
  have h: "orbit_cache new_context MERCURY = None"
    by (simp add: new_context_def CelestialSphera_init_def Let_def)
  have c: "instantiate_orbit_calls new_context = []"
    by (simp add: new_context_def CelestialSphera_init_def Let_def)
  have "orbit_cache new_context MERCURY = None \<longrightarrow>
      instantiate_orbit_calls
        (snd (get_orbit_instance (snd (get_orbit_instance new_context MERCURY)) MERCURY))
       = instantiate_orbit_calls new_context @ [MERCURY]"
    using get_orbit_instance_twice [of new_context MERCURY]
    unfolding Let_def by blast
  with h have "instantiate_orbit_calls
        (snd (get_orbit_instance (snd (get_orbit_instance new_context MERCURY)) MERCURY))
       = instantiate_orbit_calls new_context @ [MERCURY]"
    by (rule rev_mp)
  then have r: "instantiate_orbit_calls
        (snd (get_orbit_instance (snd (get_orbit_instance new_context MERCURY)) MERCURY))
       = [MERCURY]"
    by (simp only: c append_Nil)
  from h r show ?thesis by (rule conjI)
qed


section \<open>Sound caches and the orbit instance of a registered planet\<close>

lemma cache_valid_iff:
  "cache_valid ctx \<longleftrightarrow>
     (\<forall>pid oi. orbit_cache ctx pid = Some oi \<longrightarrow> oi = instantiate (orbit (for_id pid)) (ctx_t ctx))"
proof
  assume v: "cache_valid ctx"
  show "\<forall>pid oi. orbit_cache ctx pid = Some oi \<longrightarrow> oi = instantiate (orbit (for_id pid)) (ctx_t ctx)"
  proof (intro allI impI)
    fix pid oi
    assume "orbit_cache ctx pid = Some oi"
    with v show "oi = instantiate (orbit (for_id pid)) (ctx_t ctx)"
      unfolding cache_valid_def by (cases pid) simp_all
  qed
next
  assume "\<forall>pid oi. orbit_cache ctx pid = Some oi \<longrightarrow> oi = instantiate (orbit (for_id pid)) (ctx_t ctx)"
  then show "cache_valid ctx"
    unfolding cache_valid_def by (simp split: option.splits)
qed

lemma cache_valid_init: "cache_valid (CelestialSphera_init t ms sg ob nu ap)"
  by (simp add: cache_valid_def CelestialSphera_init_def Let_def)

lemma cache_valid_get_orbit_instance:
  assumes "cache_valid ctx"
  shows "cache_valid (snd (get_orbit_instance ctx pid))"
proof (cases "orbit_cache ctx pid")
  case None
  with assms show ?thesis
    by (simp only: cache_valid_iff get_orbit_instance_miss) simp
next
  case (Some oi)
  with assms show ?thesis by (simp add: get_orbit_instance_hit)
qed

lemma get_orbit_instance_value:
  assumes "cache_valid ctx"
  shows "fst (get_orbit_instance ctx pid) = instantiate (orbit (for_id pid)) (ctx_t ctx)"
proof (cases "orbit_cache ctx pid")
  case None
  then show ?thesis by (simp add: get_orbit_instance_miss)
next
  case (Some oi)
  with assms show ?thesis by (simp add: get_orbit_instance_hit cache_valid_iff)
qed

lemma planet_id_for_id: "planet_id (for_id pid) = pid"
  by (cases pid) (simp_all add: for_id.simps)

lemma get_mean_anomaly_again:
  "get_mean_anomaly (snd (get_orbit_instance ctx pid)) pid dt = get_mean_anomaly ctx pid dt"
  by (simp add: get_mean_anomaly_def get_orbit_instance_again)

lemma helio_pass_again:
  "helio_pass p (snd (get_orbit_instance ctx (planet_id p))) oi lg rg dt
     = helio_pass p ctx oi lg rg dt"
  by (simp add: helio_pass_def get_mean_anomaly_again)

lemma get_corrected_helio_unfold:
  "get_corrected_helio p ctx oi lg rg dt rho =
     (case helio_pass p ctx oi lg rg dt of
        None \<Rightarrow> None
      | Some (Inl e) \<Rightarrow> Some (Inl e)
      | Some (Inr (HelioRecord h_ll h_rpd h_lpd h_spsi h_cpsi h_rho, ctx')) \<Rightarrow>
          if dt = 0
          then get_corrected_helio p ctx' oi lg rg (h_rho * 0.005775518) h_rho
          else Some (Inr (HelioRecord h_ll h_rpd h_lpd h_spsi h_cpsi rho, ctx')))"
  by (subst get_corrected_helio.simps)
     (simp add: helio_pass_def split: prod.splits sum.splits option.splits HelioRecord.splits)

lemma get_corrected_helio_again:
  "get_corrected_helio p (snd (get_orbit_instance ctx (planet_id p))) oi lg rg dt rho
     = get_corrected_helio p ctx oi lg rg dt rho"
  by (simp add: get_corrected_helio_unfold [of p "snd (get_orbit_instance ctx (planet_id p))" oi lg rg dt rho]
        get_corrected_helio_unfold [of p ctx oi lg rg dt rho] helio_pass_again)

lemma cache_valid_get_mean_anomaly:
  assumes "cache_valid ctx"
  shows "cache_valid (snd (get_mean_anomaly ctx pid dt))"
  using cache_valid_get_orbit_instance [OF assms, of pid]
  by (simp add: get_mean_anomaly_def split_beta Let_def)

text \<open>
  The planet \<open>flat_planet\<close> carries the identifier of Pluto and elements of its own. In
  the context \<open>flat_context\<close> its own elements give one orbit instance, and the cache,
  which instantiates the elements of the planet registered for the identifier, another.
\<close>

lemma flat_oi:
  "instantiate (orbit flat_planet) 1 =
     \<lparr> OrbitInstance.perihelion = 2 * pi - flat_anomaly,
       OrbitInstance.eccentricity = 0,
       OrbitInstance.mean_node = 0,
       OrbitInstance.inclination = 0,
       OrbitInstance.major_semiaxis = 1,
       OrbitInstance.mean_anomaly = flat_anomaly,
       OrbitInstance.daily_motion = 0 \<rparr>"
  by (simp add: flat_planet_def instantiate_def assemble_mean_anomaly_def polynome_single
        frac360_def frac_def trunc_small reduce_deg_id reduce_deg_neg OElements_daily_motion_def
        DAYS_PER_CENT_def radians_def flat_anomaly_def)

lemma flat_ctx1:
  "get_orbit_instance flat_context PLUTO =
     (instantiate (orbit (for_id PLUTO)) 1,
      flat_context\<lparr>instantiate_orbit_calls := [PLUTO],
          orbit_cache := [PLUTO \<mapsto> instantiate (orbit (for_id PLUTO)) 1]\<rparr>)"
  by (simp add: get_orbit_instance_miss flat_context_def CelestialSphera_init_def Let_def)

text \<open>
  Claim C10, as stated, fails for a planet built with the constructor of \<^verbatim>\<open>Planet\<close>:
  for \<open>flat_planet\<close> in the new context \<open>flat_context\<close>, the orbit instance that
  \<^verbatim>\<open>ctx.get_orbit_instance(self.id)\<close> returns is not the one that
  \<^verbatim>\<open>self.orbit.instantiate(ctx.t)\<close> computes.
\<close>

theorem constructed_planet_orbit_differs:
  "cache_valid flat_context
   \<and> fst (get_orbit_instance flat_context (planet_id flat_planet))
       \<noteq> instantiate (orbit flat_planet) (ctx_t flat_context)"
proof -
  have v: "cache_valid flat_context"
    unfolding flat_context_def by (rule cache_valid_init)
  have i: "planet_id flat_planet = PLUTO" by (simp add: flat_planet_def)
  have t: "ctx_t flat_context = 1"
    by (simp add: flat_context_def CelestialSphera_init_def Let_def)
  have a: "OrbitInstance.major_semiaxis (instantiate (orbit (for_id PLUTO)) 1) = 39.8151"
    by (simp add: instantiate_def for_id.simps)
  have b: "OrbitInstance.major_semiaxis (instantiate (orbit flat_planet) 1) = 1"
    by (simp add: flat_oi)
  from a b have "instantiate (orbit (for_id PLUTO)) 1 \<noteq> instantiate (orbit flat_planet) 1"
    by auto
  then have "fst (get_orbit_instance flat_context (planet_id flat_planet))
       \<noteq> instantiate (orbit flat_planet) (ctx_t flat_context)"
    unfolding i t flat_ctx1 by simp
  with v show ?thesis by (rule conjI)
qed

text \<open>
  Claim C10, amended. Let \<open>ctx\<close> be a context with a sound cache and let the planet be
  the one registered for an identifier (\<^verbatim>\<open>Planet.for_id\<close>). The orbit instance that
  \<^verbatim>\<open>geocentric_position\<close> computes by \<^verbatim>\<open>self.orbit.instantiate(ctx.t)\<close> is equal to the
  one that \<^verbatim>\<open>ctx.get_orbit_instance(self.id)\<close> returns, and the method that takes the
  orbit instance from the cache instead behaves as \<^verbatim>\<open>geocentric_position\<close> does: it
  returns the same position and leaves the same context, raises the same exception, or
  does not return either.
\<close>

theorem geocentric_position_cached_eq:
  "cache_valid ctx \<Longrightarrow>
     fst (get_orbit_instance ctx (planet_id (for_id pid)))
       = instantiate (orbit (for_id pid)) (ctx_t ctx)
     \<and> geocentric_position_cached (for_id pid) ctx = geocentric_position (for_id pid) ctx"
proof -
  assume v: "cache_valid ctx"
  have val: "fst (get_orbit_instance ctx (planet_id (for_id pid)))
       = instantiate (orbit (for_id pid)) (ctx_t ctx)"
    using get_orbit_instance_value [OF v, of pid] by (simp only: planet_id_for_id)
  obtain oi ctx1 where g: "get_orbit_instance ctx (planet_id (for_id pid)) = (oi, ctx1)"
    by (cases "get_orbit_instance ctx (planet_id (for_id pid))")
  from g val have g': "get_orbit_instance ctx (planet_id (for_id pid))
      = (instantiate (orbit (for_id pid)) (ctx_t ctx), ctx1)" by simp
  from g have c1: "ctx1 = snd (get_orbit_instance ctx (planet_id (for_id pid)))" by simp
  have h: "get_corrected_helio (for_id pid) ctx1 oi' lg rg 0 0
           = get_corrected_helio (for_id pid) ctx oi' lg rg 0 0" for oi' lg rg
    unfolding c1 by (rule get_corrected_helio_again)
  have "geocentric_position_cached (for_id pid) ctx = geocentric_position (for_id pid) ctx"
    unfolding geocentric_position_cached_def geocentric_position_def Let_def g'
    by (simp add: h split: Polar.splits)
  with val show ?thesis by (rule conjI)
qed

theorem geocentric_position_cached_eq_witness:
  "cache_valid (snd (get_orbit_instance new_context PLUTO))
   \<and> orbit_cache (snd (get_orbit_instance new_context PLUTO)) PLUTO \<noteq> None
   \<and> geocentric_position_cached (for_id PLUTO) (snd (get_orbit_instance new_context PLUTO))
       = geocentric_position (for_id PLUTO) (snd (get_orbit_instance new_context PLUTO))"
proof -
  have v: "cache_valid (snd (get_orbit_instance new_context PLUTO))"
    unfolding new_context_def by (rule cache_valid_get_orbit_instance) (rule cache_valid_init)
  have c: "orbit_cache (snd (get_orbit_instance new_context PLUTO)) PLUTO \<noteq> None"
    by (simp add: get_orbit_instance_cached)
  from geocentric_position_cached_eq [OF v, of PLUTO]
  have "geocentric_position_cached (for_id PLUTO) (snd (get_orbit_instance new_context PLUTO))
       = geocentric_position (for_id PLUTO) (snd (get_orbit_instance new_context PLUTO))"
    by (rule conjunct2)
  with v c show ?thesis by simp
qed

section \<open>The light-time correction\<close>

text \<open>
  When the first pass, made with delay 0, returns a frame whose distance \<open>rho1\<close> is not
  0, the method makes exactly one more pass, with the delay \<open>rho1 * 0.005775518\<close>, on the
  context as the first pass left it, and returns the frame of that second pass with its
  distance replaced by \<open>rho1\<close>.
\<close>

lemma light_time_two_passes:
  assumes first: "helio_pass p ctx oi lg rg 0
                    = Some (Inr (HelioRecord ll1 rpd1 lpd1 spsi1 cpsi1 rho1, ctx1))"
    and nz: "rho1 \<noteq> 0"
  shows "get_corrected_helio p ctx oi lg rg 0 0 =
           (case helio_pass p ctx1 oi lg rg (rho1 * 0.005775518) of
              None \<Rightarrow> None
            | Some (Inl e) \<Rightarrow> Some (Inl e)
            | Some (Inr (HelioRecord ll2 rpd2 lpd2 spsi2 cpsi2 rho2, ctx2)) \<Rightarrow>
                Some (Inr (HelioRecord ll2 rpd2 lpd2 spsi2 cpsi2 rho1, ctx2)))"
proof -
  have "get_corrected_helio p ctx oi lg rg 0 0
          = get_corrected_helio p ctx1 oi lg rg (rho1 * 0.005775518) rho1"
    by (simp add: get_corrected_helio_unfold [of p ctx oi lg rg 0 0] first)
  also have "\<dots> = (case helio_pass p ctx1 oi lg rg (rho1 * 0.005775518) of
              None \<Rightarrow> None
            | Some (Inl e) \<Rightarrow> Some (Inl e)
            | Some (Inr (HelioRecord ll2 rpd2 lpd2 spsi2 cpsi2 rho2, ctx2)) \<Rightarrow>
                Some (Inr (HelioRecord ll2 rpd2 lpd2 spsi2 cpsi2 rho1, ctx2)))"
    using nz
    by (subst get_corrected_helio_unfold)
       (simp split: option.splits sum.splits prod.splits HelioRecord.splits)
  finally show ?thesis .
qed

lemma convert_to_geocentric_delta:
  assumes "convert_to_geocentric p ctx lg rsn (HelioRecord h_ll h_rpd h_lpd h_spsi h_cpsi h_rho)
             = Inr pos"
  shows "delta pos = h_rho"
  using assms
  by (auto simp: convert_to_geocentric_def Let_def split: if_splits)

text \<open>
  Under the same condition the distance of the position that \<^verbatim>\<open>geocentric_position\<close>
  returns is the distance \<open>rho1\<close> of the first pass.
\<close>

lemma geocentric_position_delta:
  assumes sg: "sun_geo ctx = Polar sg_phi sg_rho"
    and first: "helio_pass p ctx (instantiate (orbit p) (ctx_t ctx)) (radians sg_phi + pi) sg_rho 0
                  = Some (Inr (HelioRecord ll1 rpd1 lpd1 spsi1 cpsi1 rho1, ctx1))"
    and nz: "rho1 \<noteq> 0"
    and ret: "geocentric_position p ctx = Some (Inr (pos, ctx'))"
  shows "delta pos = rho1"
proof -
  from ret obtain h where
    h: "get_corrected_helio p ctx (instantiate (orbit p) (ctx_t ctx)) (radians sg_phi + pi) sg_rho 0 0
          = Some (Inr (h, ctx'))"
    and c: "convert_to_geocentric p ctx' (radians sg_phi + pi) sg_rho h = Inr pos"
    unfolding geocentric_position_def Let_def sg
    by (auto split: option.splits sum.splits prod.splits)
  from h obtain ll2 rpd2 lpd2 spsi2 cpsi2 where "h = HelioRecord ll2 rpd2 lpd2 spsi2 cpsi2 rho1"
    unfolding light_time_two_passes [OF first nz]
    by (auto split: option.splits sum.splits prod.splits HelioRecord.splits)
  with c show ?thesis by (simp add: convert_to_geocentric_delta)
qed

text \<open>
  The planet \<open>flat_planet\<close> in the context \<open>flat_context\<close>. Its true anomaly is the
  mean anomaly registered for Pluto, and its orbital longitude is a full turn: the first
  pass puts the planet where the Earth is, at distance 0.
\<close>

lemma flat_anomaly_bounds: "0 < flat_anomaly" "flat_anomaly < pi"
  by (simp_all add: flat_anomaly_def radians_def)

lemma pluto_mean_anomaly:
  "OrbitInstance.mean_anomaly (instantiate (orbit (for_id PLUTO)) 1) = flat_anomaly"
  by (simp add: for_id.simps instantiate_def assemble_mean_anomaly_def polynome_single
        frac360_def frac_def trunc_small reduce_deg_id flat_anomaly_def)

lemma flat_ma:
  "get_mean_anomaly flat_context PLUTO (Some 0) = (flat_anomaly, flat_context')"
  by (simp add: get_mean_anomaly_def flat_context'_def flat_ctx1 pluto_mean_anomaly radians_def)

lemma flat_ma':
  "get_mean_anomaly flat_context' PLUTO (Some 0) = (flat_anomaly, flat_context')"
  unfolding flat_context'_def get_mean_anomaly_again by (simp only: flat_ma flat_context'_def)

lemma arctan_tan_half: "2 * arctan (tan (flat_anomaly / 2)) = flat_anomaly"
proof -
  have "- (pi / 2) < flat_anomaly / 2" "flat_anomaly / 2 < pi / 2"
    using flat_anomaly_bounds by simp_all
  then show ?thesis by (simp add: arctan_tan)
qed

lemma flat_kepler: "eccentric_anomaly 0 m None = Some (Inr m)"
  by (subst eccentric_anomaly.simps) (simp add: DELTA_def)

lemma flat_helio:
  "calculate_heliocentric (instantiate (orbit flat_planet) 1) flat_anomaly 1 0
      (PertRecord 0 0 0 0 0 0 0)
     = Some (Inr (HelioRecord 0 1 0 0 1 0))"
proof -
  have r: "reduce_rad flat_anomaly = flat_anomaly"
    by (rule reduce_rad_id) (use flat_anomaly_bounds in simp_all)
  show ?thesis
    by (simp add: calculate_heliocentric_def flat_oi r flat_kepler true_anomaly_def
          arctan_tan_half atan2_def radians_def)
qed

lemma flat_pass:
  "helio_pass flat_planet flat_context (instantiate (orbit flat_planet) 1) 0 1 0
     = Some (Inr (HelioRecord 0 1 0 0 1 0, flat_context'))"
proof -
  have p: "planet_id flat_planet = PLUTO" "pert_calculator flat_planet = PertPluto"
    by (simp_all add: flat_planet_def)
  show ?thesis
    by (simp add: helio_pass_def p flat_ma calculate_perturbations_def
          PertPluto_get_data_def flat_helio)
qed

lemma flat_pass':
  "helio_pass flat_planet flat_context' (instantiate (orbit flat_planet) 1) 0 1 0
     = Some (Inr (HelioRecord 0 1 0 0 1 0, flat_context'))"
proof -
  have p: "planet_id flat_planet = PLUTO" "pert_calculator flat_planet = PertPluto"
    by (simp_all add: flat_planet_def)
  show ?thesis
    by (simp add: helio_pass_def p flat_ma' calculate_perturbations_def
          PertPluto_get_data_def flat_helio)
qed

text \<open>
  With the Sun at distance 2 instead of 1, the first pass for \<open>flat_planet\<close> returns the
  distance 1, and the method makes its two passes.
\<close>

lemma flat_helio_far:
  "calculate_heliocentric (instantiate (orbit flat_planet) 1) flat_anomaly 2 0
      (PertRecord 0 0 0 0 0 0 0)
     = Some (Inr (HelioRecord 0 1 0 0 1 1))"
proof -
  have r: "reduce_rad flat_anomaly = flat_anomaly"
    by (rule reduce_rad_id) (use flat_anomaly_bounds in simp_all)
  show ?thesis
    by (simp add: calculate_heliocentric_def flat_oi r flat_kepler true_anomaly_def
          arctan_tan_half atan2_def radians_def)
qed

lemma light_time_two_passes_example:
  "get_corrected_helio flat_planet flat_context (instantiate (orbit flat_planet) 1) 0 2 0 0 =
     (case helio_pass flat_planet flat_context' (instantiate (orbit flat_planet) 1) 0 2
             (1 * 0.005775518) of
        None \<Rightarrow> None
      | Some (Inl e) \<Rightarrow> Some (Inl e)
      | Some (Inr (HelioRecord ll2 rpd2 lpd2 spsi2 cpsi2 rho2, ctx2)) \<Rightarrow>
          Some (Inr (HelioRecord ll2 rpd2 lpd2 spsi2 cpsi2 1, ctx2)))"
proof -
  have p: "planet_id flat_planet = PLUTO" "pert_calculator flat_planet = PertPluto"
    by (simp_all add: flat_planet_def)
  have "helio_pass flat_planet flat_context (instantiate (orbit flat_planet) 1) 0 2 0
     = Some (Inr (HelioRecord 0 1 0 0 1 1, flat_context'))"
    by (simp add: helio_pass_def p flat_ma calculate_perturbations_def
          PertPluto_get_data_def flat_helio_far)
  then show ?thesis by (rule light_time_two_passes) simp
qed

lemma flat_never_returns:
  assumes "get_corrected_helio p ctx oi lg rg dt rho = Some y"
  shows "\<not> (p = flat_planet \<and> (ctx = flat_context \<or> ctx = flat_context')
            \<and> oi = instantiate (orbit flat_planet) 1 \<and> lg = 0 \<and> rg = 1 \<and> dt = 0)"
proof (rule get_corrected_helio.raw_induct
    [where P = "\<lambda>p ctx oi lg rg dt rho y.
       \<not> (p = flat_planet \<and> (ctx = flat_context \<or> ctx = flat_context')
            \<and> oi = instantiate (orbit flat_planet) 1 \<and> lg = 0 \<and> rg = 1 \<and> dt = 0)",
     OF _ assms])
  fix f p ctx oi lg rg dt rho y
  assume IH: "\<And>p ctx oi lg rg dt rho y. f p ctx oi lg rg dt rho = Some y \<Longrightarrow>
       \<not> (p = flat_planet \<and> (ctx = flat_context \<or> ctx = flat_context')
            \<and> oi = instantiate (orbit flat_planet) 1 \<and> lg = 0 \<and> rg = 1 \<and> dt = 0)"
    and body: "(case get_mean_anomaly ctx (planet_id p) (Some dt) of (ma, ctx) \<Rightarrow>
      case calculate_perturbations p ctx dt of
        Inl e \<Rightarrow> Some (Inl e)
      | Inr (pert, ctx) \<Rightarrow>
      case calculate_heliocentric oi ma rg lg pert of
        None \<Rightarrow> None
      | Some (Inl e) \<Rightarrow> Some (Inl e)
      | Some (Inr h) \<Rightarrow>
      case h of HelioRecord h_ll h_rpd h_lpd h_spsi h_cpsi h_rho \<Rightarrow>
      if dt = 0
      then f p ctx oi lg rg (h_rho * 0.005775518) h_rho
      else Some (Inr (HelioRecord h_ll h_rpd h_lpd h_spsi h_cpsi rho, ctx))) = Some y"
  have body': "(case helio_pass p ctx oi lg rg dt of
        None \<Rightarrow> None
      | Some (Inl e) \<Rightarrow> Some (Inl e)
      | Some (Inr (HelioRecord h_ll h_rpd h_lpd h_spsi h_cpsi h_rho, ctx')) \<Rightarrow>
          if dt = 0
          then f p ctx' oi lg rg (h_rho * 0.005775518) h_rho
          else Some (Inr (HelioRecord h_ll h_rpd h_lpd h_spsi h_cpsi rho, ctx'))) = Some y"
    using body
    by (simp add: helio_pass_def split: prod.splits sum.splits option.splits HelioRecord.splits)
  show "\<not> (p = flat_planet \<and> (ctx = flat_context \<or> ctx = flat_context')
            \<and> oi = instantiate (orbit flat_planet) 1 \<and> lg = 0 \<and> rg = 1 \<and> dt = 0)"
  proof
    assume a: "p = flat_planet \<and> (ctx = flat_context \<or> ctx = flat_context')
            \<and> oi = instantiate (orbit flat_planet) 1 \<and> lg = 0 \<and> rg = 1 \<and> dt = 0"
    then have e: "p = flat_planet" "oi = instantiate (orbit flat_planet) 1" "lg = 0" "rg = 1"
        "dt = 0"
      and c: "ctx = flat_context \<or> ctx = flat_context'"
      by simp_all
    from c have pass: "helio_pass flat_planet ctx (instantiate (orbit flat_planet) 1) 0 1 0
        = Some (Inr (HelioRecord 0 1 0 0 1 0, flat_context'))"
      using flat_pass flat_pass' by auto
    from body' have "f flat_planet flat_context' (instantiate (orbit flat_planet) 1) 0 1 0 0 = Some y"
      unfolding e by (simp add: pass)
    from IH [OF this] show False by simp
  qed
qed

text \<open>
  Claim C3 fails for this planet and context: the distance of the first pass is 0, so the
  delay of the next pass is 0 again, and \<^verbatim>\<open>_get_corrected_helio\<close> calls itself with the
  same arguments without end. \<^verbatim>\<open>geocentric_position\<close> does not return.
\<close>

theorem flat_planet_never_returns:
  "geocentric_position flat_planet flat_context = None"
proof -
  have "get_corrected_helio flat_planet flat_context (instantiate (orbit flat_planet) 1) 0 1 0 0 = None"
  proof (cases "get_corrected_helio flat_planet flat_context (instantiate (orbit flat_planet) 1) 0 1 0 0")
    case None
    then show ?thesis .
  next
    case (Some y)
    from flat_never_returns [OF this] show ?thesis by simp
  qed
  then show ?thesis
    by (simp add: geocentric_position_def flat_context_def CelestialSphera_init_def Let_def radians_def)
qed

section \<open>The Kepler solver\<close>

text \<open>Enclosures of sine and cosine by their Taylor polynomials.\<close>

lemma sin_enclosure:
  fixes x :: real
  shows "\<bar>sin x - (x - x ^ 3 / 6 + x ^ 5 / 120)\<bar> \<le> \<bar>x\<bar> ^ 7 / 5040"
proof -
  have c: "sin_coeff 0 = 0" "sin_coeff (Suc 0) = 1" "sin_coeff 2 = 0" "sin_coeff 3 = - 1 / 6"
      "sin_coeff 4 = 0" "sin_coeff 5 = 1 / 120" "sin_coeff 6 = 0"
    by (simp_all add: sin_coeff_def fact_numeral)
  have "(\<Sum>m<7. sin_coeff m * x ^ m)
      = sin_coeff 0 * x ^ 0 + sin_coeff (Suc 0) * x ^ 1 + sin_coeff 2 * x ^ 2 + sin_coeff 3 * x ^ 3
        + sin_coeff 4 * x ^ 4 + sin_coeff 5 * x ^ 5 + sin_coeff 6 * x ^ 6"
    by (simp add: eval_nat_numeral lessThan_Suc del: sin_coeff_0)
  then have s: "(\<Sum>m<7. sin_coeff m * x ^ m) = x - x ^ 3 / 6 + x ^ 5 / 120"
    by (simp add: c)
  have f: "inverse (fact 7 :: real) = 1 / 5040"
    by (simp add: fact_numeral)
  show ?thesis
    using Maclaurin_sin_bound [of x 7] unfolding s f by simp
qed

lemma cos_enclosure:
  fixes x :: real
  shows "\<bar>cos x - (1 - x ^ 2 / 2 + x ^ 4 / 24)\<bar> \<le> \<bar>x\<bar> ^ 6 / 720"
proof -
  obtain t where t: "cos x = (\<Sum>m<6. cos_coeff m * x ^ m) + cos (t + 1 / 2 * real 6 * pi) / fact 6 * x ^ 6"
    using Maclaurin_cos_expansion [of x 6] by blast
  have c: "cos_coeff 0 = 1" "cos_coeff (Suc 0) = 0" "cos_coeff 2 = - 1 / 2" "cos_coeff 3 = 0"
      "cos_coeff 4 = 1 / 24" "cos_coeff 5 = 0"
    by (simp_all add: cos_coeff_def fact_numeral)
  have "(\<Sum>m<6. cos_coeff m * x ^ m)
      = cos_coeff 0 * x ^ 0 + cos_coeff (Suc 0) * x ^ 1 + cos_coeff 2 * x ^ 2 + cos_coeff 3 * x ^ 3
        + cos_coeff 4 * x ^ 4 + cos_coeff 5 * x ^ 5"
    by (simp add: eval_nat_numeral lessThan_Suc del: cos_coeff_0)
  then have s: "(\<Sum>m<6. cos_coeff m * x ^ m) = 1 - x ^ 2 / 2 + x ^ 4 / 24"
    by (simp add: c)
  have "\<bar>cos x - (1 - x ^ 2 / 2 + x ^ 4 / 24)\<bar> = \<bar>cos (t + 1 / 2 * real 6 * pi)\<bar> * \<bar>x\<bar> ^ 6 / 720"
    unfolding t s by (simp add: fact_numeral abs_mult power_abs)
  also have "\<dots> \<le> 1 * \<bar>x\<bar> ^ 6 / 720"
    by (intro divide_right_mono mult_right_mono) simp_all
  finally show ?thesis by simp
qed

lemma sin_tenth: "(998334 / 10000000) \<le> sin (1/10 :: real)" "sin (1/10 :: real) \<le> (998335 / 10000000)"
proof -
  have "\<bar>sin (1/10 :: real) - 1198001 / 12000000\<bar> \<le> 1 / 50400000000"
    using sin_enclosure [of "1/10"] by (simp add: power_divide)
  then have "sin (1/10 :: real) - 1198001 / 12000000 \<le> 1 / 50400000000"
      "- (sin (1/10 :: real) - 1198001 / 12000000) \<le> 1 / 50400000000"
    by (simp_all only: abs_le_iff)
  then show "(998334 / 10000000) \<le> sin (1/10 :: real)" "sin (1/10 :: real) \<le> (998335 / 10000000)"
    by simp_all
qed

lemma cos_tenth: "(995004 / 1000000) \<le> cos (1/10 :: real)" "cos (1/10 :: real) \<le> (995005 / 1000000)"
proof -
  have "\<bar>cos (1/10 :: real) - 238801 / 240000\<bar> \<le> 1 / 720000000"
    using cos_enclosure [of "1/10"] by (simp add: power_divide)
  then have "cos (1/10 :: real) - 238801 / 240000 \<le> 1 / 720000000"
      "- (cos (1/10 :: real) - 238801 / 240000) \<le> 1 / 720000000"
    by (simp_all only: abs_le_iff)
  then show "(995004 / 1000000) \<le> cos (1/10 :: real)" "cos (1/10 :: real) \<le> (995005 / 1000000)"
    by simp_all
qed

lemma tan_tenth: "(100334 / 1000000) \<le> tan (1/10 :: real)" "tan (1/10 :: real) \<le> (100335 / 1000000)"
proof -
  have c: "0 < cos (1/10 :: real)" using cos_tenth(1) by linarith
  have "(100334 / 1000000) * cos (1/10 :: real) \<le> sin (1/10)"
    using sin_tenth(1) cos_tenth(2) by linarith
  then show "(100334 / 1000000) \<le> tan (1/10 :: real)"
    unfolding tan_def using c by (simp add: pos_le_divide_eq)
  have "sin (1/10 :: real) \<le> (100335 / 1000000) * cos (1/10)"
    using sin_tenth(2) cos_tenth(1) by linarith
  then show "tan (1/10 :: real) \<le> (100335 / 1000000)"
    unfolding tan_def using c by (simp add: pos_divide_le_eq)
qed

lemma sin_cycle: "(995 / 10000) \<le> sin (2/10 - tan (1/10 :: real))" "sin (2/10 - tan (1/10 :: real)) \<le> (99666 / 1000000)"
proof -
  have x: "(99665 / 1000000) \<le> 2/10 - tan (1/10 :: real)" "2/10 - tan (1/10 :: real) \<le> (99666 / 1000000)"
    using tan_tenth by linarith+
  have "\<bar>sin ((99665 / 1000000) :: real) - ((99665 / 1000000) - (99665 / 1000000) ^ 3 / 6 + (99665 / 1000000) ^ 5 / 120)\<bar>
          \<le> \<bar>(99665 / 1000000)\<bar> ^ 7 / 5040"
    by (rule sin_enclosure)
  then have "- (sin ((99665 / 1000000) :: real) - ((99665 / 1000000) - (99665 / 1000000) ^ 3 / 6 + (99665 / 1000000) ^ 5 / 120))
          \<le> \<bar>(99665 / 1000000)\<bar> ^ 7 / 5040"
    by (simp only: abs_le_iff)
  then have l: "(995 / 10000) \<le> sin ((99665 / 1000000) :: real)"
    by (simp add: power_divide)
  have "sin ((99665 / 1000000) :: real) \<le> sin (2/10 - tan (1/10 :: real))"
    using x pi_ge_two by (intro sin_monotone_2pi_le) linarith+
  with l show "(995 / 10000) \<le> sin (2/10 - tan (1/10 :: real))" by linarith
  have "sin (2/10 - tan (1/10 :: real)) \<le> 2/10 - tan (1/10 :: real)"
    using x by (intro sin_x_le_x) linarith
  with x show "sin (2/10 - tan (1/10 :: real)) \<le> (99666 / 1000000)" by linarith
qed

lemma cos_cycle: "(9999999 / 10000000) \<le> cos cycle_anomaly"
proof -
  have y: "0 \<le> cycle_anomaly" "cycle_anomaly \<le> (335 / 1000000)"
    unfolding cycle_anomaly_def using tan_tenth by linarith+
  have "\<bar>cos ((335 / 1000000) :: real) - (1 - (335 / 1000000) ^ 2 / 2 + (335 / 1000000) ^ 4 / 24)\<bar>
          \<le> \<bar>(335 / 1000000)\<bar> ^ 6 / 720"
    by (rule cos_enclosure)
  then have "- (cos ((335 / 1000000) :: real) - (1 - (335 / 1000000) ^ 2 / 2 + (335 / 1000000) ^ 4 / 24))
          \<le> \<bar>(335 / 1000000)\<bar> ^ 6 / 720"
    by (simp only: abs_le_iff)
  then have l: "(9999999 / 10000000) \<le> cos ((335 / 1000000) :: real)"
    by (simp add: power_divide)
  have "cos ((335 / 1000000) :: real) \<le> cos cycle_anomaly"
    using y pi_ge_two by (intro cos_monotone_0_pi_le) linarith+
  with l show ?thesis by linarith
qed

lemma cycle_eccentricity_bounds: "(10016 / 10000) \<le> cycle_eccentricity" "cycle_eccentricity \<le> (10034 / 10000)"
proof -
  have p: "0 < sin (2/10 - tan (1/10 :: real))" using sin_cycle(1) by linarith
  have "(10016 / 10000) * sin (2/10 - tan (1/10 :: real)) \<le> sin (1/10)"
    using sin_cycle(2) sin_tenth(1) by linarith
  then show "(10016 / 10000) \<le> cycle_eccentricity"
    unfolding cycle_eccentricity_def using p by (simp add: pos_le_divide_eq)
  have "sin (1/10) \<le> (10034 / 10000) * sin (2/10 - tan (1/10 :: real))"
    using sin_cycle(1) sin_tenth(2) by linarith
  then show "cycle_eccentricity \<le> (10034 / 10000)"
    unfolding cycle_eccentricity_def using p by (simp add: pos_divide_le_eq)
qed


lemma cycle_identities:
  shows "- (cycle_eccentricity * sin cycle_anomaly)
           = tan (1/10) * (1 - cycle_eccentricity * cos cycle_anomaly)"
    and "cycle_eccentricity * sin (1/10) - tan (1/10)
           = - (tan (1/10) * (1 - cycle_eccentricity * cos (1/10)))"
proof -
  have c: "0 < cos (1/10 :: real)" using cos_tenth(1) by linarith
  have p: "0 < sin (2/10 - tan (1/10 :: real))" using sin_cycle(1) by linarith
  have x: "2/10 - tan (1/10 :: real) = 1/10 - cycle_anomaly"
    by (simp add: cycle_anomaly_def)
  have sx: "sin (2/10 - tan (1/10 :: real))
      = sin (1/10) * cos cycle_anomaly - cos (1/10) * sin cycle_anomaly"
    unfolding x by (rule sin_diff)
  have e: "cycle_eccentricity * sin (2/10 - tan (1/10 :: real)) = sin (1/10)"
    unfolding cycle_eccentricity_def using p by simp
  have t: "tan (1/10 :: real) * cos (1/10) = sin (1/10)"
    unfolding tan_def using c by simp
  have "cos (1/10) * (- (cycle_eccentricity * sin cycle_anomaly))
      = cycle_eccentricity * sin (2/10 - tan (1/10 :: real))
        - cycle_eccentricity * sin (1/10) * cos cycle_anomaly"
    unfolding sx by (simp add: algebra_simps)
  also have "\<dots> = sin (1/10) * (1 - cycle_eccentricity * cos cycle_anomaly)"
    unfolding e by (simp add: algebra_simps)
  also have "\<dots> = cos (1/10) * (tan (1/10) * (1 - cycle_eccentricity * cos cycle_anomaly))"
    unfolding t [symmetric] by (simp add: algebra_simps)
  finally have f: "cos (1/10) * (- (cycle_eccentricity * sin cycle_anomaly))
      = cos (1/10) * (tan (1/10) * (1 - cycle_eccentricity * cos cycle_anomaly))" .
  from c have nz: "cos (1/10 :: real) \<noteq> 0" by simp
  from f show "- (cycle_eccentricity * sin cycle_anomaly)
           = tan (1/10) * (1 - cycle_eccentricity * cos cycle_anomaly)"
    by (simp only: mult_left_cancel [OF nz])
  show "cycle_eccentricity * sin (1/10) - tan (1/10)
           = - (tan (1/10) * (1 - cycle_eccentricity * cos (1/10)))"
    unfolding t [symmetric] by (simp add: algebra_simps)
qed

lemma cycle_denominators:
  shows "1 - cycle_eccentricity * cos cycle_anomaly \<le> - (15 / 10000)"
    and "(16 / 10000) \<le> 1 - cycle_eccentricity * cos (1/10)"
proof -
  have "(10016 / 10000) * (9999999 / 10000000) \<le> cycle_eccentricity * cos cycle_anomaly"
    using cycle_eccentricity_bounds(1) cos_cycle by (intro mult_mono) simp_all
  then show "1 - cycle_eccentricity * cos cycle_anomaly \<le> - (15 / 10000)" by simp
  have "cycle_eccentricity * cos (1/10) \<le> (10034 / 10000) * (995005 / 1000000)"
    using cycle_eccentricity_bounds cos_tenth by (intro mult_mono) simp_all
  then show "(16 / 10000) \<le> 1 - cycle_eccentricity * cos (1/10)" by simp
qed

lemma cycle_residuals:
  shows "DELTA \<le> \<bar>- (cycle_eccentricity * sin cycle_anomaly)\<bar>"
    and "DELTA \<le> \<bar>cycle_eccentricity * sin (1/10) - tan (1/10)\<bar>"
proof -
  have t: "(1 / 10) \<le> tan (1/10 :: real)" using tan_tenth(1) by linarith
  have "(1 / 10) * (15 / 10000) \<le> tan (1/10) * \<bar>1 - cycle_eccentricity * cos cycle_anomaly\<bar>"
    using t cycle_denominators(1) by (intro mult_mono) simp_all
  then show "DELTA \<le> \<bar>- (cycle_eccentricity * sin cycle_anomaly)\<bar>"
    unfolding cycle_identities(1) using t by (simp add: abs_mult DELTA_def)
  have "(1 / 10) * (16 / 10000) \<le> tan (1/10) * \<bar>1 - cycle_eccentricity * cos (1/10)\<bar>"
    using t cycle_denominators(2) by (intro mult_mono) simp_all
  then show "DELTA \<le> \<bar>cycle_eccentricity * sin (1/10) - tan (1/10)\<bar>"
    unfolding cycle_identities(2) using t by (simp add: abs_mult DELTA_def)
qed

lemma cycle_step_from_anomaly:
  shows "\<not> \<bar>cycle_anomaly - cycle_eccentricity * sin cycle_anomaly - cycle_anomaly\<bar> < DELTA"
    and "1 - cycle_eccentricity * cos cycle_anomaly \<noteq> 0"
    and "cycle_anomaly - (cycle_anomaly - cycle_eccentricity * sin cycle_anomaly - cycle_anomaly)
           / (1 - cycle_eccentricity * cos cycle_anomaly) = - (1/10)"
proof -
  show d: "1 - cycle_eccentricity * cos cycle_anomaly \<noteq> 0"
    using cycle_denominators(1) by linarith
  have r: "cycle_anomaly - cycle_eccentricity * sin cycle_anomaly - cycle_anomaly
      = - (cycle_eccentricity * sin cycle_anomaly)" by simp
  show "\<not> \<bar>cycle_anomaly - cycle_eccentricity * sin cycle_anomaly - cycle_anomaly\<bar> < DELTA"
    unfolding r using cycle_residuals(1) by linarith
  show "cycle_anomaly - (cycle_anomaly - cycle_eccentricity * sin cycle_anomaly - cycle_anomaly)
           / (1 - cycle_eccentricity * cos cycle_anomaly) = - (1/10)"
    unfolding r cycle_identities(1) using d by (simp add: cycle_anomaly_def)
qed

lemma cycle_step_from_tenth:
  shows "\<not> \<bar>- (1/10) - cycle_eccentricity * sin (- (1/10)) - cycle_anomaly\<bar> < DELTA"
    and "1 - cycle_eccentricity * cos (- (1/10)) \<noteq> 0"
    and "- (1/10) - (- (1/10) - cycle_eccentricity * sin (- (1/10)) - cycle_anomaly)
           / (1 - cycle_eccentricity * cos (- (1/10))) = cycle_anomaly"
proof -
  show d: "1 - cycle_eccentricity * cos (- (1/10)) \<noteq> 0"
    using cycle_denominators(2) by simp
  have r: "- (1/10) - cycle_eccentricity * sin (- (1/10)) - cycle_anomaly
      = cycle_eccentricity * sin (1/10) - tan (1/10)"
    by (simp add: cycle_anomaly_def)
  show "\<not> \<bar>- (1/10) - cycle_eccentricity * sin (- (1/10)) - cycle_anomaly\<bar> < DELTA"
    unfolding r using cycle_residuals(2) by linarith
  show "- (1/10) - (- (1/10) - cycle_eccentricity * sin (- (1/10)) - cycle_anomaly)
           / (1 - cycle_eccentricity * cos (- (1/10))) = cycle_anomaly"
    unfolding r cycle_identities(2) using d by (simp add: cycle_anomaly_def)
qed


lemma cycle_exhausts_depth:
  "ea_opt = None \<or> ea_opt = Some cycle_anomaly \<or> ea_opt = Some (- (1/10)) \<Longrightarrow>
     eccentric_anomaly_depth n cycle_eccentricity cycle_anomaly ea_opt = Inl RecursionError"
proof (induction n arbitrary: ea_opt)
  case 0
  show ?case by simp
next
  case (Suc n)
  from Suc.prems consider
      "(case ea_opt of None \<Rightarrow> cycle_anomaly | Some e \<Rightarrow> e) = cycle_anomaly"
    | "(case ea_opt of None \<Rightarrow> cycle_anomaly | Some e \<Rightarrow> e) = - (1/10)"
    by auto
  then show ?case
  proof cases
    case 1
    have "eccentric_anomaly_depth (Suc n) cycle_eccentricity cycle_anomaly ea_opt
        = eccentric_anomaly_depth n cycle_eccentricity cycle_anomaly (Some (- (1/10)))"
      unfolding eccentric_anomaly_depth.simps Let_def 1
      by (simp only: cycle_step_from_anomaly if_False)
    then show ?thesis using Suc.IH [of "Some (- (1/10))"] by simp
  next
    case 2
    have "eccentric_anomaly_depth (Suc n) cycle_eccentricity cycle_anomaly ea_opt
        = eccentric_anomaly_depth n cycle_eccentricity cycle_anomaly (Some cycle_anomaly)"
      unfolding eccentric_anomaly_depth.simps Let_def 2
      by (simp only: cycle_step_from_tenth if_False)
    then show ?thesis using Suc.IH [of "Some cycle_anomaly"] by simp
  qed
qed

text \<open>
  Claim C6, as stated, fails: the solver has no bound on the number of its steps and no
  failure of its own for a call that does not converge. For the eccentricity
  \<open>cycle_eccentricity\<close> and the mean anomaly \<open>cycle_anomaly\<close> the Newton steps go from
  \<open>cycle_anomaly\<close> to \<open>- 1/10\<close> and back and the residual stays above \<open>DELTA\<close>. On a
  stack with room for 1000 calls the solver makes all of them, and the call ends when the
  interpreter raises \<^verbatim>\<open>RecursionError\<close>.
\<close>

theorem eccentric_anomaly_no_bound:
  "eccentric_anomaly_depth 1000 cycle_eccentricity cycle_anomaly None = Inl RecursionError"
  by (rule cycle_exhausts_depth) simp

text \<open>
  The two models of the solver agree: a call returns a result on a stack without limit
  exactly when it returns that result on a stack with enough room, and more room does not
  change a result.
\<close>

lemma eccentric_anomaly_depth_result:
  "case eccentric_anomaly_depth n s m ea_opt of
     Inl e \<Rightarrow> e = ZeroDivisionError \<or> e = RecursionError
   | Inr ea \<Rightarrow> \<bar>ea - s * sin ea - m\<bar> < DELTA"
  by (induction n arbitrary: ea_opt) (simp_all add: Let_def)

lemma eccentric_anomaly_depth_step:
  "eccentric_anomaly_depth (Suc k) s m ea_opt =
     (let ea = (case ea_opt of None \<Rightarrow> m | Some e \<Rightarrow> e)
      in if \<bar>ea - s * sin ea - m\<bar> < DELTA then Inr ea
         else if 1 - s * cos ea = 0 then Inl ZeroDivisionError
         else eccentric_anomaly_depth k s m (Some (ea - (ea - s * sin ea - m) / (1 - s * cos ea))))"
  by (simp add: Let_def)

lemma eccentric_anomaly_depth_Suc:
  "eccentric_anomaly_depth n s m ea_opt \<noteq> Inl RecursionError \<Longrightarrow>
     eccentric_anomaly_depth (Suc n) s m ea_opt = eccentric_anomaly_depth n s m ea_opt"
proof (induction n arbitrary: ea_opt)
  case 0
  then show ?case by simp
next
  case (Suc n)
  define ea where "ea = (case ea_opt of None \<Rightarrow> m | Some e \<Rightarrow> e)"
  define nxt where "nxt = ea - (ea - s * sin ea - m) / (1 - s * cos ea)"
  have a: "eccentric_anomaly_depth (Suc k) s m ea_opt =
      (if \<bar>ea - s * sin ea - m\<bar> < DELTA then Inr ea
       else if 1 - s * cos ea = 0 then Inl ZeroDivisionError
       else eccentric_anomaly_depth k s m (Some nxt))" for k
    unfolding eccentric_anomaly_depth_step Let_def ea_def nxt_def ..
  show ?case
  proof (cases "\<bar>ea - s * sin ea - m\<bar> < DELTA \<or> 1 - s * cos ea = 0")
    case True
    then show ?thesis unfolding a [of "Suc n"] a [of n] by auto
  next
    case False
    with Suc.prems have "eccentric_anomaly_depth n s m (Some nxt) \<noteq> Inl RecursionError"
      unfolding a [of n] by simp
    from Suc.IH [OF this] False show ?thesis
      unfolding a [of "Suc n"] a [of n] by simp
  qed
qed

lemma eccentric_anomaly_depth_more:
  "eccentric_anomaly_depth n s m ea_opt \<noteq> Inl RecursionError \<Longrightarrow>
     eccentric_anomaly_depth (n + k) s m ea_opt = eccentric_anomaly_depth n s m ea_opt"
  by (induction k) (simp_all add: eccentric_anomaly_depth_Suc del: eccentric_anomaly_depth.simps)

lemma eccentric_anomaly_depth_returns:
  "eccentric_anomaly_depth n s m ea_opt = r \<Longrightarrow> r \<noteq> Inl RecursionError \<Longrightarrow>
     eccentric_anomaly s m ea_opt = Some r"
proof (induction n arbitrary: ea_opt)
  case 0
  then show ?case by simp
next
  case (Suc n)
  from Suc.prems show ?case
    using Suc.IH by (subst eccentric_anomaly.simps) (auto simp: Let_def split: if_splits)
qed

lemma eccentric_anomaly_enough_depth:
  assumes "eccentric_anomaly s m ea_opt = Some r"
  shows "\<exists>n. eccentric_anomaly_depth n s m ea_opt = r \<and> r \<noteq> Inl RecursionError"
proof (rule eccentric_anomaly.raw_induct
    [where P = "\<lambda>s m ea_opt r.
       \<exists>n. eccentric_anomaly_depth n s m ea_opt = r \<and> r \<noteq> Inl RecursionError", OF _ assms])
  fix f s m ea_opt r
  assume IH: "\<And>s m ea_opt r. f s m ea_opt = Some r \<Longrightarrow>
       \<exists>n. eccentric_anomaly_depth n s m ea_opt = r \<and> r \<noteq> Inl RecursionError"
    and body: "(let ea = (case ea_opt of None \<Rightarrow> m | Some e \<Rightarrow> e);
          dla = ea - (s * sin ea) - m
      in if \<bar>dla\<bar> < DELTA then Some (Inr ea)
         else if 1 - (s * cos ea) = 0 then Some (Inl ZeroDivisionError)
         else f s m (Some (ea - dla / (1 - (s * cos ea))))) = Some r"
  define ea where "ea = (case ea_opt of None \<Rightarrow> m | Some e \<Rightarrow> e)"
  consider "\<bar>ea - s * sin ea - m\<bar> < DELTA"
    | "\<not> \<bar>ea - s * sin ea - m\<bar> < DELTA" "1 - s * cos ea = 0"
    | "\<not> \<bar>ea - s * sin ea - m\<bar> < DELTA" "1 - s * cos ea \<noteq> 0"
    by blast
  then show "\<exists>n. eccentric_anomaly_depth n s m ea_opt = r \<and> r \<noteq> Inl RecursionError"
  proof cases
    case 1
    with body have "r = Inr ea" by (simp add: Let_def ea_def)
    with 1 have "eccentric_anomaly_depth (Suc 0) s m ea_opt = r \<and> r \<noteq> Inl RecursionError"
      by (simp add: Let_def ea_def)
    then show ?thesis ..
  next
    case 2
    with body have "r = Inl ZeroDivisionError" by (simp add: Let_def ea_def)
    with 2 have "eccentric_anomaly_depth (Suc 0) s m ea_opt = r \<and> r \<noteq> Inl RecursionError"
      by (simp add: Let_def ea_def)
    then show ?thesis ..
  next
    case 3
    with body have "f s m (Some (ea - (ea - s * sin ea - m) / (1 - s * cos ea))) = Some r"
      by (simp add: Let_def ea_def)
    from IH [OF this] obtain n where
      n: "eccentric_anomaly_depth n s m (Some (ea - (ea - s * sin ea - m) / (1 - s * cos ea))) = r"
        "r \<noteq> Inl RecursionError"
      by blast
    with 3 have "eccentric_anomaly_depth (Suc n) s m ea_opt = r \<and> r \<noteq> Inl RecursionError"
      by (simp add: Let_def ea_def)
    then show ?thesis ..
  qed
qed

lemma eccentric_anomaly_None_iff:
  "eccentric_anomaly s m ea_opt = None \<longleftrightarrow>
     (\<forall>n. eccentric_anomaly_depth n s m ea_opt = Inl RecursionError)"
proof
  assume none: "eccentric_anomaly s m ea_opt = None"
  show "\<forall>n. eccentric_anomaly_depth n s m ea_opt = Inl RecursionError"
  proof (rule allI, rule ccontr)
    fix n
    assume "eccentric_anomaly_depth n s m ea_opt \<noteq> Inl RecursionError"
    from eccentric_anomaly_depth_returns [OF refl this] none show False by simp
  qed
next
  assume all: "\<forall>n. eccentric_anomaly_depth n s m ea_opt = Inl RecursionError"
  show "eccentric_anomaly s m ea_opt = None"
  proof (cases "eccentric_anomaly s m ea_opt")
    case None
    then show ?thesis .
  next
    case (Some r)
    from eccentric_anomaly_enough_depth [OF this] all show ?thesis by auto
  qed
qed

text \<open>An argument for which the solver makes one Newton step and returns.\<close>

lemma one_minus_cos_small: "0 \<le> 1 - cos (1/1000 :: real)" "1 - cos (1/1000 :: real) < 1 / 1000000"
proof -
  show "0 \<le> 1 - cos (1/1000 :: real)" by simp
  have "\<bar>cos (1/1000 :: real) - (1 - (1/1000) ^ 2 / 2 + (1/1000) ^ 4 / 24)\<bar> \<le> \<bar>1/1000\<bar> ^ 6 / 720"
    by (rule cos_enclosure)
  then have "- (cos (1/1000 :: real) - (1 - (1/1000) ^ 2 / 2 + (1/1000) ^ 4 / 24)) \<le> \<bar>1/1000\<bar> ^ 6 / 720"
    by (simp only: abs_le_iff)
  then show "1 - cos (1/1000 :: real) < 1 / 1000000"
    by (simp add: power_divide)
qed

lemma one_newton_step:
  "eccentric_anomaly_depth 2 (1/1000) (pi/2) None = Inr (pi/2 + 1/1000)"
proof -
  have s: "sin (pi/2 + 1/1000 :: real) = cos (1/1000)"
    by (simp add: sin_add)
  have r: "pi/2 + 1/1000 - 1/1000 * cos (1/1000 :: real) - pi/2 = (1 - cos (1/1000)) / 1000"
    by (simp add: field_simps)
  have d: "\<bar>(1 - cos (1/1000 :: real)) / 1000\<bar> < DELTA"
    using one_minus_cos_small by (simp add: DELTA_def)
  have "eccentric_anomaly_depth (Suc (Suc 0)) (1/1000) (pi/2) None = Inr (pi/2 + 1/1000)"
    unfolding eccentric_anomaly_depth.simps Let_def
    using d by (simp add: DELTA_def s r)
  then show ?thesis by (simp only: numeral_2_eq_2)
qed

text \<open>
  Claim C6, amended. The solver has no bound of its own on its Newton steps and no failure
  of its own for a call that does not converge. Every step is one more call on the stack,
  and a call ends in one of three ways: it returns a value whose residual is below
  \<open>DELTA\<close>, it raises \<^verbatim>\<open>ZeroDivisionError\<close> in a Newton step, or the interpreter raises
  \<^verbatim>\<open>RecursionError\<close> because the stack is full. A call that ends in one of the first two
  ways ends in the same way on every stack with more room, and there are arguments for
  which the call ends by \<^verbatim>\<open>RecursionError\<close> whatever room the stack has.
\<close>

theorem eccentric_anomaly_depth_exits:
  "(case eccentric_anomaly_depth n s m ea_opt of
      Inl e \<Rightarrow> e = ZeroDivisionError \<or> e = RecursionError
    | Inr ea \<Rightarrow> \<bar>ea - s * sin ea - m\<bar> < DELTA)
   \<and> (eccentric_anomaly_depth n s m ea_opt \<noteq> Inl RecursionError \<longrightarrow>
        eccentric_anomaly_depth (n + k) s m ea_opt = eccentric_anomaly_depth n s m ea_opt)
   \<and> (\<exists>s' m'. \<forall>n'. eccentric_anomaly_depth n' s' m' None = Inl RecursionError)"
proof (intro conjI impI)
  show "case eccentric_anomaly_depth n s m ea_opt of
      Inl e \<Rightarrow> e = ZeroDivisionError \<or> e = RecursionError
    | Inr ea \<Rightarrow> \<bar>ea - s * sin ea - m\<bar> < DELTA"
    by (rule eccentric_anomaly_depth_result)
next
  assume "eccentric_anomaly_depth n s m ea_opt \<noteq> Inl RecursionError"
  then show "eccentric_anomaly_depth (n + k) s m ea_opt = eccentric_anomaly_depth n s m ea_opt"
    by (rule eccentric_anomaly_depth_more)
next
  have "\<forall>n'. eccentric_anomaly_depth n' cycle_eccentricity cycle_anomaly None = Inl RecursionError"
    by (simp add: cycle_exhausts_depth del: eccentric_anomaly_depth.simps)
  then show "\<exists>s' m'. \<forall>n'. eccentric_anomaly_depth n' s' m' None = Inl RecursionError"
    by blast
qed

theorem eccentric_anomaly_depth_exits_witness:
  "eccentric_anomaly_depth 2 (1/1000) (pi/2) None = Inr (pi/2 + 1/1000)
   \<and> \<bar>pi/2 + 1/1000 - 1/1000 * sin (pi/2 + 1/1000) - pi/2\<bar> < DELTA
   \<and> eccentric_anomaly_depth 1000 (1/1000) (pi/2) None = Inr (pi/2 + 1/1000)"
  using eccentric_anomaly_depth_exits
      [where n = 2 and s = "1/1000" and m = "pi/2" and ea_opt = None and k = 998]
    one_newton_step
  by (simp del: eccentric_anomaly_depth.simps)

end
